theory Spec2Isabelle
  imports Complex_Main
begin

section \<open>Python values, exceptions and the result envelope (app/core/utils.py)\<close>

text \<open>
  Conventions of the embedding.
  \<^item> A Python \<open>float\<close> of the algebra, matrix and geometry modules is a \<open>pyfloat\<close>: a finite
    value (the real number it denotes), \<open>inf\<close>, \<open>-inf\<close> or \<open>nan\<close>. Comparison, \<open>abs\<close> and
    negation do not round and are defined here. The operations that round or overflow
    (\<open>+\<close>, \<open>-\<close>, \<open>*\<close>, \<open>/\<close>, \<open>** 2\<close>, \<open>math.sqrt\<close>) belong to the language, not to the
    repository: they are the parameter \<open>F\<close> of every operation that computes with floats,
    and nothing is assumed about their results unless a theorem states it.
  \<^item> In the calculus module the floats are the values that \<open>float(...)\<close> returns for a
    SymPy number; they are kept as real numbers.
  \<^item> A raised exception is a value \<open>Inl e\<close> of a sum type; \<open>try: ... except Exception\<close>
    is \<open>catch_all\<close>.
  \<^item> An f-string is kept as the list of its pieces (\<open>pystr\<close>): literal text and the
    interpolated values with their format specification, not yet rendered to characters.
    Concatenation of strings is \<open>@\<close>.
  \<^item> A string that an operation receives as data is the list of its Unicode code points.
  \<^item> NumPy and SymPy are libraries outside the repository: their functions are
    parameters of the operations that call them.
  \<^item> The presentation-only fields \<open>latex\<close> and \<open>plot_elements\<close> of the envelope are
    not part of the embedding. Where the computation of the \<open>latex\<close> field can raise, it
    is kept for its exception and its text is dropped.
\<close>

datatype pyfloat = Fin real | PInf | NInf | NaN

text \<open>\<open>x < y\<close>, \<open>x == y\<close>, \<open>x > y\<close> and \<open>x != y\<close>: every comparison with \<open>nan\<close> is false,
  except \<open>!=\<close>.\<close>

fun flt :: "pyfloat \<Rightarrow> pyfloat \<Rightarrow> bool" where
  "flt (Fin x) (Fin y) = (x < y)"
| "flt (Fin x) PInf = True"
| "flt NInf (Fin y) = True"
| "flt NInf PInf = True"
| "flt x y = False"

fun feq :: "pyfloat \<Rightarrow> pyfloat \<Rightarrow> bool" where
  "feq (Fin x) (Fin y) = (x = y)"
| "feq PInf PInf = True"
| "feq NInf NInf = True"
| "feq x y = False"

definition fgt :: "pyfloat \<Rightarrow> pyfloat \<Rightarrow> bool" where
  "fgt x y = flt y x"

definition fne :: "pyfloat \<Rightarrow> pyfloat \<Rightarrow> bool" where
  "fne x y = (\<not> feq x y)"

fun fabs :: "pyfloat \<Rightarrow> pyfloat" where
  "fabs (Fin x) = Fin \<bar>x\<bar>"
| "fabs PInf = PInf"
| "fabs NInf = PInf"
| "fabs NaN = NaN"

fun fneg :: "pyfloat \<Rightarrow> pyfloat" where
  "fneg (Fin x) = Fin (- x)"
| "fneg PInf = NInf"
| "fneg NInf = PInf"
| "fneg NaN = NaN"

fun is_finite :: "pyfloat \<Rightarrow> bool" where
  "is_finite (Fin x) = True"
| "is_finite x = False"

text \<open>\<open>max(0, x)\<close>: the first argument stays unless the second is greater.\<close>

definition py_max0 :: "pyfloat \<Rightarrow> pyfloat" where
  "py_max0 x = (if fgt x (Fin 0) then x else Fin 0)"

text \<open>The doubles that the literals \<open>1e-9\<close> and \<open>1e-10\<close> denote.\<close>

definition lit_1e_9 :: pyfloat where
  "lit_1e_9 = Fin (4835703278458517 / 2^82)"

definition lit_1e_10 :: pyfloat where
  "lit_1e_10 = Fin (7737125245533627 / 2^86)"

datatype frag =
    Lit string             \<comment> \<open>literal text\<close>
  | Num string real        \<comment> \<open>\<open>{v:spec}\<close> for a float \<open>v\<close> kept as a real number\<close>
  | NumF string pyfloat    \<comment> \<open>\<open>{v:spec}\<close> for a float \<open>v\<close>; the empty spec is \<open>str(v)\<close>\<close>
  | IntS int               \<comment> \<open>\<open>str(n)\<close> for an int\<close>
  | ExprLatex "pyfloat list" \<comment> \<open>\<open>latex(e)\<close> for the SymPy expression with these coefficients\<close>

type_synonym pystr = "frag list"

datatype exc_kind =
  ValueError | TypeError | OverflowError | ZeroDivisionError | SympifyError | LinAlgError
  | OtherError

datatype pyexc = PyExc exc_kind pystr

fun exc_kind_of :: "pyexc \<Rightarrow> exc_kind" where
  "exc_kind_of (PyExc k m) = k"

fun exc_str :: "pyexc \<Rightarrow> pystr" where
  "exc_str (PyExc k m) = m"

definition ebind :: "pyexc + 'a \<Rightarrow> ('a \<Rightarrow> pyexc + 'b) \<Rightarrow> pyexc + 'b" where
  "ebind m f = (case m of Inl e \<Rightarrow> Inl e | Inr v \<Rightarrow> f v)"

text \<open>The float operations of the language. \<open>f_div F x y\<close> is the quotient for a divisor
  that is not zero, \<open>f_sqrt F x\<close> the root of an \<open>x\<close> that is not negative, \<open>f_of_int F n\<close>
  the float of an int within the range of a double; \<open>x ** 2\<close> raises \<open>OverflowError\<close>
  where its result is out of range.\<close>

record float_ops =
  f_add :: "pyfloat \<Rightarrow> pyfloat \<Rightarrow> pyfloat"
  f_sub :: "pyfloat \<Rightarrow> pyfloat \<Rightarrow> pyfloat"
  f_mul :: "pyfloat \<Rightarrow> pyfloat \<Rightarrow> pyfloat"
  f_div :: "pyfloat \<Rightarrow> pyfloat \<Rightarrow> pyfloat"
  f_pow2 :: "pyfloat \<Rightarrow> pyexc + pyfloat"
  f_sqrt :: "pyfloat \<Rightarrow> pyfloat"
  f_of_int :: "int \<Rightarrow> pyfloat"

text \<open>Python's \<open>x / y\<close> on floats and \<open>math.sqrt(x)\<close>.\<close>

definition py_truediv :: "float_ops \<Rightarrow> pyfloat \<Rightarrow> pyfloat \<Rightarrow> pyexc + pyfloat" where
  "py_truediv F x y =
     (if feq y (Fin 0) then Inl (PyExc ZeroDivisionError [Lit ''float division by zero''])
      else Inr (f_div F x y))"

definition py_sqrt :: "float_ops \<Rightarrow> pyfloat \<Rightarrow> pyexc + pyfloat" where
  "py_sqrt F x =
     (if flt x (Fin 0) then Inl (PyExc ValueError [Lit ''math domain error''])
      else Inr (f_sqrt F x))"

text \<open>Values that an operation receives (dictionary entries, matrix cells).\<close>

type_synonym ustr = "nat list"

definition ascii :: "string \<Rightarrow> ustr" where
  "ascii s = map of_char s"

datatype pyval = PyNone | PyBool bool | PyInt int | PyFloat pyfloat | PyStr ustr | PyObj

text \<open>Values that an operation puts into its payload.\<close>

datatype jval =
  JBool bool | JInt int | JNum real | JFloat pyfloat | JStr pystr | JList "jval list"
  | JDict "(string \<times> jval) list"

record ComputationResult =
  status :: string
  operation :: string
  payload :: "(string \<times> jval) list"
  steps :: "pystr list"

definition create_error_result :: "string \<Rightarrow> pystr \<Rightarrow> ComputationResult" where
  "create_error_result op message =
     \<lparr>status = ''error'', operation = op, payload = [(''error'', JStr message)],
      steps = [Lit ''Error: '' # message]\<rparr>"

text \<open>\<open>try: body except Exception as e: return create_error_result(op, str(e))\<close>\<close>

definition catch_all :: "string \<Rightarrow> pyexc + ComputationResult \<Rightarrow> ComputationResult" where
  "catch_all op body =
     (case body of Inr r \<Rightarrow> r | Inl e \<Rightarrow> create_error_result op (exc_str e))"

text \<open>\<open>int(num)\<close> truncates towards zero.\<close>

definition py_int :: "real \<Rightarrow> int" where
  "py_int v = (if 0 \<le> v then \<lfloor>v\<rfloor> else \<lceil>v\<rceil>)"

definition format_latex_number :: "real \<Rightarrow> pystr" where
  "format_latex_number num =
     (if num = of_int (py_int num) then [IntS (py_int num)] else [Num ''.4g'' num])"

text \<open>\<open>format_latex_number\<close> on a float that may be \<open>inf\<close> or \<open>nan\<close>: there \<open>int(num)\<close>
  raises.\<close>

definition format_latex_number_float :: "pyfloat \<Rightarrow> pyexc + pystr" where
  "format_latex_number_float num =
     (case num of
        Fin v \<Rightarrow> Inr (if v = of_int (py_int v) then [IntS (py_int v)] else [NumF ''.4g'' num])
      | NaN \<Rightarrow> Inl (PyExc ValueError [Lit ''cannot convert float NaN to integer''])
      | _ \<Rightarrow> Inl (PyExc OverflowError [Lit ''cannot convert float infinity to integer'']))"

text \<open>The well-formedness of an envelope that the specification demands: the status is
  \<open>ok\<close> or \<open>error\<close>, and an error envelope carries exactly the key \<open>error\<close> with a
  message and the one step \<open>Error: message\<close>.\<close>

definition is_error_envelope :: "ComputationResult \<Rightarrow> bool" where
  "is_error_envelope r =
     (case payload r of
        [(k, JStr msg)] \<Rightarrow> k = ''error'' \<and> steps r = [Lit ''Error: '' # msg]
      | _ \<Rightarrow> False)"

definition envelope_ok :: "ComputationResult \<Rightarrow> bool" where
  "envelope_ok r =
     (if status r = ''ok'' then True
      else if status r = ''error'' then is_error_envelope r
      else False)"

section \<open>Quadratic equations (app/core/algebra.py)\<close>

text \<open>The SymPy operations that \<open>_solve_quadratic\<close> applies, over SymPy's type \<open>'v\<close> of
  numbers: \<open>simplify(D)**0.5\<close> for a float \<open>D\<close>, \<open>x + v\<close> and \<open>x - v\<close> for a float \<open>x\<close>,
  \<open>v / y\<close> for a float \<open>y\<close>, \<open>str(v)\<close> and \<open>latex(v)\<close>. Each arithmetic operation may
  raise; what a division by a zero float does is SymPy's matter.\<close>

record 'v sympy_num =
  sn_pow_half :: "pyfloat \<Rightarrow> pyexc + 'v"
  sn_radd :: "pyfloat \<Rightarrow> 'v \<Rightarrow> pyexc + 'v"
  sn_rsub :: "pyfloat \<Rightarrow> 'v \<Rightarrow> pyexc + 'v"
  sn_div :: "'v \<Rightarrow> pyfloat \<Rightarrow> pyexc + 'v"
  sn_str :: "'v \<Rightarrow> string"
  sn_latex :: "'v \<Rightarrow> string"

text \<open>\<open>_solve_quadratic\<close>: the two assignments \<open>x1 = (-b + simplify(D)**0.5) / (2*a)\<close> and
  \<open>x2 = (-b - simplify(D)**0.5) / (2*a)\<close>, then the function. The plot is computed inside
  \<open>try: ... except Exception: pass\<close> and has no effect on the payload or the steps.\<close>

definition quadratic_x1 ::
  "float_ops \<Rightarrow> 'v sympy_num \<Rightarrow> pyfloat \<Rightarrow> pyfloat \<Rightarrow> pyfloat \<Rightarrow> pyexc + 'v" where
  "quadratic_x1 F Q a b D =
     ebind (sn_pow_half Q D) (\<lambda>sq_root.
     ebind (sn_radd Q (fneg b) sq_root) (\<lambda>num.
     sn_div Q num (f_mul F (Fin 2) a)))"

definition quadratic_x2 ::
  "float_ops \<Rightarrow> 'v sympy_num \<Rightarrow> pyfloat \<Rightarrow> pyfloat \<Rightarrow> pyfloat \<Rightarrow> pyexc + 'v" where
  "quadratic_x2 F Q a b D =
     ebind (sn_pow_half Q D) (\<lambda>sq_root.
     ebind (sn_rsub Q (fneg b) sq_root) (\<lambda>num.
     sn_div Q num (f_mul F (Fin 2) a)))"

definition solve_quadratic ::
  "float_ops \<Rightarrow> 'v sympy_num \<Rightarrow> pyfloat \<Rightarrow> pyfloat \<Rightarrow> pyfloat \<Rightarrow>
   pyexc + ((string \<times> jval) list \<times> pystr list)" where
  "solve_quadratic F Q a b c =
     ebind (f_pow2 F b) (\<lambda>b_sq.
     let D = f_sub F b_sq (f_mul F (f_mul F (Fin 4) a) c) in
     ebind (quadratic_x1 F Q a b D) (\<lambda>x1.
     ebind (quadratic_x2 F Q a b D) (\<lambda>x2.
     let steps0 =
           [[Lit ''Equation: '', NumF [] a, Lit ''x^2 + '', NumF [] b, Lit ''x + '',
             NumF [] c, Lit '' = 0''],
            [Lit ''Discriminant (D) = b^2 - 4ac = ('', NumF [] b, Lit '')^2 - 4('',
             NumF [] a, Lit '')('', NumF [] c, Lit '') = '', NumF [] D]];
         (steps1, payload_sol) =
           (if fgt D (Fin 0) then
              (steps0 @ [[Lit ''D > 0, so there are two distinct real roots.'']],
               [(''roots'', JList [JStr [Lit (sn_str Q x1)], JStr [Lit (sn_str Q x2)]]),
                (''type'', JStr [Lit ''real_distinct''])])
            else if feq D (Fin 0) then
              (steps0 @ [[Lit ''D = 0, so there is one repeated real root.'']],
               [(''roots'', JList [JStr [Lit (sn_str Q x1)]]),
                (''type'', JStr [Lit ''real_repeated''])])
            else
              (steps0 @ [[Lit ''D < 0, so there are two complex conjugate roots.'']],
               [(''roots'', JList [JStr [Lit (sn_str Q x1)], JStr [Lit (sn_str Q x2)]]),
                (''type'', JStr [Lit ''complex''])]))
     in Inr (payload_sol,
             steps1 @ [[Lit ''Root 1: x = '', Lit (sn_latex Q x1)],
                       [Lit ''Root 2: x = '', Lit (sn_latex Q x2)]]))))"

definition QuadraticSolver_solve ::
  "float_ops \<Rightarrow> 'v sympy_num \<Rightarrow> pyfloat \<Rightarrow> pyfloat \<Rightarrow> pyfloat \<Rightarrow> ComputationResult" where
  "QuadraticSolver_solve F Q a b c =
     catch_all ''quadratic_solve''
       (ebind (solve_quadratic F Q a b c) (\<lambda>(payload_sol, steps_sol).
          Inr \<lparr>status = ''ok'', operation = ''quadratic_solve'', payload = payload_sol,
               steps = steps_sol\<rparr>))"

section \<open>Matrix classification (app/core/algebra.py, MatrixCalculator)\<close>

text \<open>\<open>str.isdigit\<close>: the string is not empty and every character is a digit of the
  Unicode database. Up to code point 255 these are the ten ASCII digits and the
  superscripts two, three and one (178, 179, 185); beyond, the database is the
  parameter \<open>U\<close>.\<close>

definition isdigit_char :: "(nat \<Rightarrow> bool) \<Rightarrow> nat \<Rightarrow> bool" where
  "isdigit_char U c =
     (if c < 256 then (48 \<le> c \<and> c \<le> 57) \<or> c = 178 \<or> c = 179 \<or> c = 185 else U c)"

definition isdigit :: "(nat \<Rightarrow> bool) \<Rightarrow> ustr \<Rightarrow> bool" where
  "isdigit U s = (s \<noteq> [] \<and> list_all (isdigit_char U) s)"

text \<open>\<open>x.replace('.', '', 1)\<close>: the first dot (code point 46) is deleted.\<close>

definition replace_first_dot :: "ustr \<Rightarrow> ustr" where
  "replace_first_dot s = remove1 46 s"

text \<open>The test of one cell:
  \<open>isinstance(x, (int, float)) or (isinstance(x, str) and x.replace('.','',1).isdigit())\<close>.
  A \<open>bool\<close> is an \<open>int\<close> in Python.\<close>

fun cell_is_numeric :: "(nat \<Rightarrow> bool) \<Rightarrow> pyval \<Rightarrow> bool" where
  "cell_is_numeric U (PyInt n) = True"
| "cell_is_numeric U (PyFloat v) = True"
| "cell_is_numeric U (PyBool b) = True"
| "cell_is_numeric U (PyStr s) = isdigit U (replace_first_dot s)"
| "cell_is_numeric U PyNone = False"
| "cell_is_numeric U PyObj = False"

text \<open>The two nested loops with their \<open>break\<close>s: the value of \<open>is_numeric\<close> after
  the inner loop over one row, and after the outer loop.\<close>

fun scan_row :: "(nat \<Rightarrow> bool) \<Rightarrow> pyval list \<Rightarrow> bool" where
  "scan_row U [] = True"
| "scan_row U (x # xs) = (if \<not> cell_is_numeric U x then False else scan_row U xs)"

fun scan_matrix :: "(nat \<Rightarrow> bool) \<Rightarrow> pyval list list \<Rightarrow> bool" where
  "scan_matrix U [] = True"
| "scan_matrix U (row # rows) = (if \<not> scan_row U row then False else scan_matrix U rows)"

text \<open>\<open>MatrixCalculator.compute_properties\<close>. The NumPy branch and the SymPy branch
  (determinant, inverse, rank, eigenvalues and their formatting) are library
  computations, taken as the parameters \<open>numeric_path\<close> and \<open>symbolic_path\<close>: each returns
  the payload and the steps, or raises.\<close>

definition compute_properties ::
  "(nat \<Rightarrow> bool) \<Rightarrow>
   (pyval list list \<Rightarrow> pyexc + ((string \<times> jval) list \<times> pystr list)) \<Rightarrow>
   (pyval list list \<Rightarrow> pyexc + ((string \<times> jval) list \<times> pystr list)) \<Rightarrow>
   pyval list list \<Rightarrow> ComputationResult" where
  "compute_properties U numeric_path symbolic_path matrix_data =
     (let is_numeric = scan_matrix U matrix_data;
          body = ebind (if is_numeric then numeric_path matrix_data
                        else symbolic_path matrix_data)
                   (\<lambda>(payload_v, steps_v).
                      Inr \<lparr>status = ''ok'', operation = ''matrix_properties'',
                           payload = payload_v, steps = steps_v\<rparr>)
      in case body of
           Inr r \<Rightarrow> r
         | Inl e \<Rightarrow> create_error_result ''matrix_properties''
                     (Lit ''Matrix Error: '' # exc_str e))"

section \<open>Matrix inverse (app/core/matrices.py)\<close>

text \<open>The two NumPy functions that \<open>matrix_inverse\<close> calls. The determinant is a float
  that may be \<open>inf\<close> or \<open>nan\<close>.\<close>

record numpy =
  linalg_det :: "pyfloat list list \<Rightarrow> pyfloat"
  linalg_inv :: "pyfloat list list \<Rightarrow> pyexc + pyfloat list list"

definition utf8_approx :: string where
  "utf8_approx = [CHR 0xE2, CHR 0x89, CHR 0x88]"

definition utf8_neq :: string where
  "utf8_neq = [CHR 0xE2, CHR 0x89, CHR 0xA0]"

definition utf8_times :: string where
  "utf8_times = [CHR 0xC3, CHR 0x97]"

definition utf8_inverse_ok :: string where
  "utf8_inverse_ok =
     ''Verification: A '' @ utf8_times @ '' A'' @ [CHR 0xE2, CHR 0x81, CHR 0xBB, CHR 0xC2,
     CHR 0xB9] @ '' = I '' @ [CHR 0xE2, CHR 0x9C, CHR 0x93]"

text \<open>The results of a list of computations, or the first exception raised.\<close>

fun sequence_e :: "(pyexc + 'a) list \<Rightarrow> pyexc + 'a list" where
  "sequence_e [] = Inr []"
| "sequence_e (m # ms) = ebind m (\<lambda>v. ebind (sequence_e ms) (\<lambda>vs. Inr (v # vs)))"

text \<open>\<open>sep.join(parts)\<close>\<close>

fun str_join :: "pystr \<Rightarrow> pystr list \<Rightarrow> pystr" where
  "str_join sep [] = []"
| "str_join sep [p] = p"
| "str_join sep (p # q # ps) = p @ sep @ str_join sep (q # ps)"

text \<open>\<open>_matrix_to_latex\<close>: it formats every entry with \<open>format_latex_number\<close> and so raises on
  an entry that is \<open>inf\<close> or \<open>nan\<close>.\<close>

definition matrix_to_latex :: "pyfloat list list \<Rightarrow> pyexc + pystr" where
  "matrix_to_latex matrix =
     ebind (sequence_e (map (\<lambda>row.
              ebind (sequence_e (map format_latex_number_float row)) (\<lambda>cells.
                Inr (str_join [Lit '' & ''] cells))) matrix)) (\<lambda>rows.
       Inr ([Lit ([CHR 0x5C] @ ''begin{pmatrix} '')] @
            str_join [Lit ('' '' @ [CHR 0x5C, CHR 0x5C] @ '' '')] rows @
            [Lit ('' '' @ [CHR 0x5C] @ ''end{pmatrix}'')]))"

text \<open>\<open>_validate_matrix\<close>: the error text or \<open>None\<close>. Its second test, that every row is
  a list, holds by the type of the argument.\<close>

definition validate_matrix :: "pyfloat list list \<Rightarrow> string \<Rightarrow> pystr option" where
  "validate_matrix matrix name =
     (if matrix = [] then Some [Lit name, Lit '' is empty'']
      else if length (remdups (map length matrix)) > 1
        then Some [Lit name, Lit '' has inconsistent row lengths'']
      else None)"

definition json_matrix :: "pyfloat list list \<Rightarrow> jval" where
  "json_matrix m = JList (map (\<lambda>row. JList (map JFloat row)) m)"

text \<open>\<open>matrix_inverse\<close>. The arguments of \<open>ComputationResult(...)\<close> are evaluated in the
  order written: the steps with \<open>format_latex_number(det)\<close> before the \<open>latex\<close> field with
  \<open>_matrix_to_latex\<close>.\<close>

definition matrix_inverse :: "numpy \<Rightarrow> pyfloat list list \<Rightarrow> ComputationResult" where
  "matrix_inverse np matrix =
     catch_all ''matrix_inverse''
       (case validate_matrix matrix ''Matrix'' of
          Some err \<Rightarrow> Inr (create_error_result ''matrix_inverse'' err)
        | None \<Rightarrow>
            (let rows = length matrix; cols = length (hd matrix) in
             if rows \<noteq> cols
             then Inr (create_error_result ''matrix_inverse'' [Lit ''Matrix must be square''])
             else
               (let det = linalg_det np matrix in
                if flt (fabs det) lit_1e_10 then
                  ebind (format_latex_number_float det) (\<lambda>det_text.
                  ebind (matrix_to_latex matrix) (\<lambda>latex_matrix.
                  Inr \<lparr>status = ''ok'', operation = ''matrix_inverse'',
                       payload = [(''matrix'', json_matrix matrix), (''determinant'', JFloat det),
                                  (''invertible'', JBool False)],
                       steps = [Lit ''Determinant: '' # det_text,
                                [Lit (''Matrix is singular (det '' @ utf8_approx @
                                      '' 0), inverse does not exist'')]]\<rparr>))
                else
                  ebind (linalg_inv np matrix) (\<lambda>inverse.
                  ebind (format_latex_number_float det) (\<lambda>det_text.
                  ebind (matrix_to_latex matrix) (\<lambda>latex_matrix.
                  ebind (matrix_to_latex inverse) (\<lambda>latex_inverse.
                  Inr \<lparr>status = ''ok'', operation = ''matrix_inverse'',
                       payload = [(''matrix'', json_matrix matrix),
                                  (''inverse'', json_matrix inverse),
                                  (''determinant'', JFloat det), (''invertible'', JBool True)],
                       steps = [[Lit ''Matrix: '', IntS (int rows), Lit utf8_times,
                                 IntS (int cols)],
                                Lit ''Determinant: '' # det_text @
                                  [Lit ('' '' @ utf8_neq @ '' 0 (invertible)'')],
                                [Lit ''Computing inverse using Gauss-Jordan elimination''],
                                [Lit utf8_inverse_ok]]\<rparr>)))))))"

section \<open>Geometry (app/core/geometry.py)\<close>

type_synonym pydict = "string \<Rightarrow> pyval option"

text \<open>\<open>d.get(k, dflt)\<close>; \<open>d.get(k)\<close> is \<open>dict_get d k PyNone\<close>.\<close>

definition dict_get :: "pydict \<Rightarrow> string \<Rightarrow> pyval \<Rightarrow> pyval" where
  "dict_get d k dflt = (case d k of Some v \<Rightarrow> v | None \<Rightarrow> dflt)"

text \<open>The built-in \<open>float(val)\<close>. Parsing a string is Python's own function, the
  parameter \<open>parse\<close> (\<open>None\<close> where \<open>float\<close> raises \<open>ValueError\<close>). An \<open>int\<close> up to \<open>2^53\<close>
  is converted without rounding, a larger one is rounded, and one beyond the range of
  a double raises \<open>OverflowError\<close>. The texts of the \<open>TypeError\<close> and \<open>ValueError\<close> are
  not modelled: the only caller discards them.\<close>

definition py_float ::
  "float_ops \<Rightarrow> (ustr \<Rightarrow> pyfloat option) \<Rightarrow> pyval \<Rightarrow> pyexc + pyfloat" where
  "py_float F parse val =
     (case val of
        PyNone \<Rightarrow> Inl (PyExc TypeError [])
      | PyBool b \<Rightarrow> Inr (Fin (if b then 1 else 0))
      | PyInt n \<Rightarrow>
          (if \<bar>n\<bar> \<le> 2^53 then Inr (Fin (of_int n))
           else if \<bar>n\<bar> < 2^1024 - 2^970 then Inr (f_of_int F n)
           else Inl (PyExc OverflowError [Lit ''int too large to convert to float'']))
      | PyFloat v \<Rightarrow> Inr v
      | PyStr s \<Rightarrow> (case parse s of Some v \<Rightarrow> Inr v | None \<Rightarrow> Inl (PyExc ValueError []))
      | PyObj \<Rightarrow> Inl (PyExc TypeError []))"

text \<open>\<open>_safe_float\<close>: \<open>None\<close> and the empty string give \<open>0.0\<close>, and so does every value
  on which \<open>float\<close> raises \<open>ValueError\<close> or \<open>TypeError\<close>; another exception passes.\<close>

definition safe_float ::
  "float_ops \<Rightarrow> (ustr \<Rightarrow> pyfloat option) \<Rightarrow> pyval \<Rightarrow> pyexc + pyfloat" where
  "safe_float F parse val =
     (if val = PyNone \<or> val = PyStr [] then Inr (Fin 0)
      else case py_float F parse val of
             Inr v \<Rightarrow> Inr v
           | Inl e \<Rightarrow> (if exc_kind_of e = ValueError \<or> exc_kind_of e = TypeError
                       then Inr (Fin 0) else Inl e))"

definition json_point :: "pyfloat \<Rightarrow> pyfloat \<Rightarrow> jval" where
  "json_point px py = JDict [(''x'', JFloat px), (''y'', JFloat py)]"

definition intersection_result ::
  "string \<Rightarrow> string \<Rightarrow> jval list \<Rightarrow> jval \<Rightarrow> pystr list \<Rightarrow> ComputationResult" where
  "intersection_result op st points distance steps_v =
     \<lparr>status = ''ok'', operation = op,
      payload = [(''status'', JStr [Lit st]), (''points'', JList points),
                 (''distance'', distance)],
      steps = steps_v\<rparr>"

text \<open>\<open>line_circle_intersection\<close> after the six parameters are read. Where \<open>denom\<close> is
  zero, \<open>dist\<close> is the int \<open>0\<close>: its square is \<open>0\<close> and it is formatted without an
  exception. \<open>a**2\<close> and \<open>b**2\<close> are evaluated again for \<open>x0\<close> and \<open>y0\<close>, with the results
  they had. The \<open>latex\<close> field is computed last, with \<open>format_latex_number(dist)\<close>.\<close>

definition line_circle_body ::
  "float_ops \<Rightarrow> pyfloat \<Rightarrow> pyfloat \<Rightarrow> pyfloat \<Rightarrow> pyfloat \<Rightarrow> pyfloat \<Rightarrow> pyfloat \<Rightarrow>
   pyexc + ComputationResult" where
  "line_circle_body F a b c h k r =
     (let numer = fabs (f_add F (f_add F (f_mul F a h) (f_mul F b k)) c) in
      ebind (f_pow2 F a) (\<lambda>a_sq.
      ebind (f_pow2 F b) (\<lambda>b_sq.
      ebind (py_sqrt F (f_add F a_sq b_sq)) (\<lambda>denom.
      let dist_is_float = fne denom (Fin 0);
          dist = (if dist_is_float then f_div F numer denom else Fin 0);
          dist_json = (if dist_is_float then JFloat dist else JInt 0);
          steps0 =
            [[Lit ''Line: '', NumF [] a, Lit ''x + '', NumF [] b, Lit ''y + '', NumF [] c,
              Lit '' = 0''],
             [Lit ''Circle Center: ('', NumF [] h, Lit '', '', NumF [] k, Lit ''), Radius: '',
              NumF [] r],
             [Lit ''Perpendicular Distance d from Center to Line: '', NumF ''.4f'' dist]];
          x0_num = f_sub F (f_mul F b (f_sub F (f_mul F b h) (f_mul F a k))) (f_mul F a c);
          y0_num = f_sub F (f_mul F a (f_add F (f_mul F (fneg b) h) (f_mul F a k)))
                     (f_mul F b c);
          finish = (\<lambda>st points steps_v.
            ebind (if dist_is_float then format_latex_number_float dist else Inr [IntS 0])
              (\<lambda>dist_text.
                Inr (intersection_result ''line_circle_intersection'' st points dist_json
                       steps_v)))
      in if flt (fabs (f_sub F dist r)) lit_1e_9 then
           ebind (py_truediv F x0_num (f_add F a_sq b_sq)) (\<lambda>x0.
           ebind (py_truediv F y0_num (f_add F a_sq b_sq)) (\<lambda>y0.
           finish ''tangent'' [json_point x0 y0]
             (steps0 @ [[Lit (''d '' @ utf8_approx @ '' r (''), NumF ''.4f'' dist,
                         Lit ('' '' @ utf8_approx @ '' ''), NumF [] r,
                         Lit ''), Line is Tangent'']])))
         else if flt dist r then
           ebind (py_truediv F x0_num (f_add F a_sq b_sq)) (\<lambda>x0.
           ebind (py_truediv F y0_num (f_add F a_sq b_sq)) (\<lambda>y0.
           ebind (f_pow2 F r) (\<lambda>r_sq.
           ebind (if dist_is_float then f_pow2 F dist else Inr (Fin 0)) (\<lambda>dist_sq.
           ebind (py_sqrt F (f_sub F r_sq dist_sq)) (\<lambda>d_chord.
           ebind (py_truediv F (f_mul F (fneg b) d_chord) denom) (\<lambda>dx.
           ebind (py_truediv F (f_mul F a d_chord) denom) (\<lambda>dy.
           finish ''secant''
             [json_point (f_add F x0 dx) (f_add F y0 dy),
              json_point (f_sub F x0 dx) (f_sub F y0 dy)]
             (steps0 @ [[Lit ''d < r ('', NumF ''.4f'' dist, Lit '' < '', NumF [] r,
                         Lit ''), Line is Secant (2 points)'']]))))))))
         else
           finish ''no_intersection'' []
             (steps0 @ [[Lit ''d > r ('', NumF ''.4f'' dist, Lit '' > '', NumF [] r,
                         Lit ''), No Intersection'']])))))"

definition line_circle_intersection ::
  "float_ops \<Rightarrow> (ustr \<Rightarrow> pyfloat option) \<Rightarrow> pydict \<Rightarrow> pydict \<Rightarrow> ComputationResult" where
  "line_circle_intersection F parse line_params circle_params =
     catch_all ''line_circle_intersection''
       (ebind (safe_float F parse (dict_get line_params ''a'' PyNone)) (\<lambda>a.
        ebind (safe_float F parse (dict_get line_params ''b'' PyNone)) (\<lambda>b.
        ebind (safe_float F parse (dict_get line_params ''c'' PyNone)) (\<lambda>c.
        ebind (if circle_params ''h'' \<noteq> None
               then safe_float F parse (dict_get circle_params ''h'' PyNone)
               else safe_float F parse (dict_get circle_params ''x'' (PyInt 0))) (\<lambda>h.
        ebind (if circle_params ''k'' \<noteq> None
               then safe_float F parse (dict_get circle_params ''k'' PyNone)
               else safe_float F parse (dict_get circle_params ''y'' (PyInt 0))) (\<lambda>k.
        ebind (safe_float F parse (dict_get circle_params ''r'' PyNone)) (\<lambda>r.
        line_circle_body F a b c h k r)))))))"

text \<open>\<open>circle_circle_intersection\<close> after the six parameters are read, in three parts:
  the distance of the centres (\<open>d_sq\<close> and \<open>d\<close>), the two points of the last branch (from
  \<open>a\<close> to \<open>y3_2\<close>), and the function. \<open>r1**2\<close> is evaluated again for \<open>h_val\<close>, and the two
  quotients by \<open>d\<close> again for the second point, with the results they had. The \<open>latex\<close>
  field is computed last, with \<open>format_latex_number(d)\<close>.\<close>

definition centre_distance ::
  "float_ops \<Rightarrow> pyfloat \<Rightarrow> pyfloat \<Rightarrow> pyfloat \<Rightarrow> pyfloat \<Rightarrow> pyexc + pyfloat" where
  "centre_distance F h1 k1 h2 k2 =
     ebind (f_pow2 F (f_sub F h2 h1)) (\<lambda>dx_sq.
     ebind (f_pow2 F (f_sub F k2 k1)) (\<lambda>dy_sq.
     py_sqrt F (f_add F dx_sq dy_sq)))"

definition chord_points ::
  "float_ops \<Rightarrow> pyfloat \<Rightarrow> pyfloat \<Rightarrow> pyfloat \<Rightarrow> pyfloat \<Rightarrow> pyfloat \<Rightarrow> pyfloat \<Rightarrow> pyfloat \<Rightarrow>
   pyexc + ((pyfloat \<times> pyfloat) \<times> (pyfloat \<times> pyfloat))" where
  "chord_points F h1 k1 r1 h2 k2 r2 d =
     ebind (f_pow2 F r1) (\<lambda>r1_sq.
     ebind (f_pow2 F r2) (\<lambda>r2_sq.
     ebind (f_pow2 F d) (\<lambda>d_sq.
     ebind (py_truediv F (f_add F (f_sub F r1_sq r2_sq) d_sq) (f_mul F (Fin 2) d)) (\<lambda>a.
     ebind (f_pow2 F a) (\<lambda>a_sq.
     ebind (py_sqrt F (py_max0 (f_sub F r1_sq a_sq))) (\<lambda>h_val.
     ebind (py_truediv F (f_mul F a (f_sub F h2 h1)) d) (\<lambda>ax.
     ebind (py_truediv F (f_mul F a (f_sub F k2 k1)) d) (\<lambda>ay.
     let x2 = f_add F h1 ax; y2 = f_add F k1 ay in
     ebind (py_truediv F (f_mul F h_val (f_sub F k2 k1)) d) (\<lambda>hx.
     ebind (py_truediv F (f_mul F h_val (f_sub F h2 h1)) d) (\<lambda>hy.
     let x3_1 = f_add F x2 hx; y3_1 = f_sub F y2 hy;
         x3_2 = f_sub F x2 hx; y3_2 = f_add F y2 hy
     in Inr ((x3_1, y3_1), (x3_2, y3_2))))))))))))"

definition circle_circle_body ::
  "float_ops \<Rightarrow> pyfloat \<Rightarrow> pyfloat \<Rightarrow> pyfloat \<Rightarrow> pyfloat \<Rightarrow> pyfloat \<Rightarrow> pyfloat \<Rightarrow>
   pyexc + ComputationResult" where
  "circle_circle_body F h1 k1 r1 h2 k2 r2 =
     ebind (centre_distance F h1 k1 h2 k2) (\<lambda>d.
     let steps0 =
           [[Lit ''Circle 1: Center ('', NumF [] h1, Lit '', '', NumF [] k1,
             Lit ''), Radius '', NumF [] r1],
            [Lit ''Circle 2: Center ('', NumF [] h2, Lit '', '', NumF [] k2,
             Lit ''), Radius '', NumF [] r2],
            [Lit ''Distance between centers d = '', NumF ''.4f'' d]];
         finish = (\<lambda>st points steps_v.
           ebind (format_latex_number_float d) (\<lambda>d_text.
             Inr (intersection_result ''circle_circle_intersection'' st points (JFloat d)
                    steps_v)))
     in if fgt d (f_add F r1 r2) then
          finish ''disjoint_outside'' [] (steps0 @ [[Lit ''d > r1 + r2 (Separate circles)'']])
        else if flt d (fabs (f_sub F r1 r2)) then
          finish ''disjoint_inside'' [] (steps0 @ [[Lit ''d < |r1 - r2| (One inside other)'']])
        else if feq d (Fin 0) \<and> feq r1 r2 then
          finish ''coincident'' [] (steps0 @ [[Lit ''Identical circles'']])
        else
          ebind (chord_points F h1 k1 r1 h2 k2 r2 d) (\<lambda>((x3_1, y3_1), (x3_2, y3_2)).
          if flt (fabs (f_sub F d (f_add F r1 r2))) lit_1e_9 \<or>
             flt (fabs (f_sub F d (fabs (f_sub F r1 r2)))) lit_1e_9 then
            finish ''tangent'' [json_point x3_1 y3_1]
              (steps0 @ [[Lit ''Circles touch at one point'']])
          else
            finish ''intersecting'' [json_point x3_1 y3_1, json_point x3_2 y3_2]
              (steps0 @ [[Lit ''Circles intersect at two points'']])))"

definition circle_circle_intersection ::
  "float_ops \<Rightarrow> (ustr \<Rightarrow> pyfloat option) \<Rightarrow> pydict \<Rightarrow> pydict \<Rightarrow> ComputationResult" where
  "circle_circle_intersection F parse c1_params c2_params =
     catch_all ''circle_circle_intersection''
       (ebind (safe_float F parse (dict_get c1_params ''x'' (PyInt 0))) (\<lambda>h1.
        ebind (safe_float F parse (dict_get c1_params ''y'' (PyInt 0))) (\<lambda>k1.
        ebind (safe_float F parse (dict_get c1_params ''r'' PyNone)) (\<lambda>r1.
        ebind (safe_float F parse (dict_get c2_params ''x'' (PyInt 0))) (\<lambda>h2.
        ebind (safe_float F parse (dict_get c2_params ''y'' (PyInt 0))) (\<lambda>k2.
        ebind (safe_float F parse (dict_get c2_params ''r'' PyNone)) (\<lambda>r2.
        circle_circle_body F h1 k1 r1 h2 k2 r2)))))))"

subsection \<open>Conic sections\<close>

text \<open>SymPy's part of the conic analysis, over SymPy's type \<open>'d\<close> of numbers: \<open>M3.det()\<close> for
  the matrix of floats \<open>M3\<close>, the value of \<open>Delta == 0\<close> and \<open>str(Delta)\<close> for a determinant
  \<open>Delta\<close>. Whether a determinant that is zero is the int \<open>0\<close> or a \<open>Float\<close>, and whether the
  latter equals \<open>0\<close>, is SymPy's matter.\<close>

record 'd sympy_det =
  md_det :: "pyfloat list list \<Rightarrow> pyexc + 'd"
  md_eq_zero :: "'d \<Rightarrow> bool"
  md_str :: "'d \<Rightarrow> string"

text \<open>\<open>_analyze_conic_cached\<close>: the conic type and the steps. \<open>h**2 - a*b\<close> is computed on
  Python floats, after the determinant and before the branches. The equation in the
  first step is \<open>latex(expr)\<close> of \<open>A*x**2 + B*x*y + C*y**2 + D*x + E*y + F\<close>.\<close>

definition utf8_Delta :: string where
  "utf8_Delta = [CHR 0xCE, CHR 0x94]"

definition utf8_squared :: string where
  "utf8_squared = [CHR 0xC2, CHR 0xB2]"

definition analyze_conic_cached ::
  "float_ops \<Rightarrow> 'd sympy_det \<Rightarrow>
   pyfloat \<Rightarrow> pyfloat \<Rightarrow> pyfloat \<Rightarrow> pyfloat \<Rightarrow> pyfloat \<Rightarrow> pyfloat \<Rightarrow>
   pyexc + (string \<times> pystr list)" where
  "analyze_conic_cached F S A B C D E F_coeff =
     (let a = A; b = C; c_const = F_coeff;
          h = f_div F B (Fin 2); g = f_div F D (Fin 2); f_const = f_div F E (Fin 2);
          M3 = [[a, h, g], [h, b, f_const], [g, f_const, c_const]]
      in ebind (md_det S M3) (\<lambda>Delta.
         ebind (f_pow2 F h) (\<lambda>h_sq.
         let Disc = f_sub F h_sq (f_mul F a b);
             conic_type =
               (if md_eq_zero S Delta then ''Degenerate Conic (Pair of Lines, Point, etc.)''
                else if fgt Disc (Fin 0) then ''Hyperbola''
                else if feq Disc (Fin 0) then ''Parabola''
                else if feq a b \<and> feq h (Fin 0) then ''Circle''
                else ''Ellipse'')
         in Inr (conic_type,
                 [[Lit ''Equation: '', ExprLatex [A, B, C, D, E, F_coeff], Lit '' = 0''],
                  [Lit (''Determinant '' @ utf8_Delta @ '' = ''), Lit (md_str S Delta)],
                  [Lit (''Discriminant h'' @ utf8_squared @ ''-ab = ''), NumF [] Disc],
                  [Lit ''Classification: '', Lit conic_type]]))))"

definition ConicAnalyzer_analyze ::
  "float_ops \<Rightarrow> (ustr \<Rightarrow> pyfloat option) \<Rightarrow> 'd sympy_det \<Rightarrow> pydict \<Rightarrow> ComputationResult" where
  "ConicAnalyzer_analyze F parse S coeffs =
     catch_all ''conic_analyze''
       (ebind (safe_float F parse (dict_get coeffs ''A'' PyNone)) (\<lambda>A.
        ebind (safe_float F parse (dict_get coeffs ''B'' PyNone)) (\<lambda>B.
        ebind (safe_float F parse (dict_get coeffs ''C'' PyNone)) (\<lambda>C.
        ebind (safe_float F parse (dict_get coeffs ''D'' PyNone)) (\<lambda>D.
        ebind (safe_float F parse (dict_get coeffs ''E'' PyNone)) (\<lambda>E.
        ebind (safe_float F parse (dict_get coeffs ''F'' PyNone)) (\<lambda>F_coeff.
        ebind (analyze_conic_cached F S A B C D E F_coeff) (\<lambda>(conic_type, steps_v).
          Inr \<lparr>status = ''ok'', operation = ''conic_analyze'',
               payload = [(''type'', JStr [Lit conic_type]),
                          (''determinant'', JStr [Lit ''...'']),
                          (''discriminant'', JStr [Lit ''...''])],
               steps = steps_v\<rparr>))))))))"

section \<open>Calculus (app/core/calculus.py)\<close>

text \<open>What \<open>solveset\<close> returns: a set that can be iterated, given by its iterator (the
  \<open>i\<close>-th call of \<open>next\<close> returns \<open>it i\<close>, and \<open>None\<close> stands for \<open>StopIteration\<close>), or a
  set without \<open>__iter__\<close> such as a \<open>ConditionSet\<close> or an interval. A finite set has an
  iterator that ends; the solutions of a periodic equation form a union of image sets
  over the integers, whose iterator never ends. An element is a number, real when its
  imaginary part is zero.\<close>

datatype solset = Iterable "nat \<Rightarrow> complex option" | NotIterable

definition iter_of_list :: "'a list \<Rightarrow> nat \<Rightarrow> 'a option" where
  "iter_of_list xs i = (if i < length xs then Some (xs ! i) else None)"

definition FiniteSet :: "complex list \<Rightarrow> solset" where
  "FiniteSet zs = Iterable (iter_of_list zs)"

text \<open>The SymPy functions that the calculus module calls, over SymPy's type \<open>'e\<close> of
  expressions. \<open>sp_subs_float f z\<close> is \<open>float(f.subs(x, z).evalf())\<close>.\<close>

record 'e sympy =
  sp_sympify :: "string \<Rightarrow> pyexc + 'e"
  sp_lambdify :: "'e \<Rightarrow> pyexc + unit"
  sp_diff :: "'e \<Rightarrow> pyexc + 'e"
  sp_solveset_reals :: "'e \<Rightarrow> pyexc + solset"
  sp_solveset :: "'e \<Rightarrow> pyexc + solset"
  sp_subs_float :: "'e \<Rightarrow> complex \<Rightarrow> pyexc + real"
  sp_limit :: "'e \<Rightarrow> real \<Rightarrow> string \<Rightarrow> pyexc + 'e"
  sp_latex :: "'e \<Rightarrow> string"
  sp_str :: "'e \<Rightarrow> string"

text \<open>A \<open>FunctionAnalyzer\<close> after \<open>__post_init__\<close>: the expression text and either the
  error text (\<open>_valid\<close> is false) or the expression with its first and second
  derivative.\<close>

record 'e FunctionAnalyzer =
  expression :: string
  parsed :: "pystr + ('e \<times> 'e \<times> 'e)"

definition FunctionAnalyzer_init :: "'e sympy \<Rightarrow> string \<Rightarrow> 'e FunctionAnalyzer" where
  "FunctionAnalyzer_init S expr_text =
     \<lparr>expression = expr_text,
      parsed =
        (case ebind (sp_sympify S expr_text) (\<lambda>f.
              ebind (sp_lambdify S f) (\<lambda>u0.
              ebind (sp_diff S f) (\<lambda>f1.
              ebind (sp_lambdify S f1) (\<lambda>u1.
              ebind (sp_diff S f1) (\<lambda>f2.
              ebind (sp_lambdify S f2) (\<lambda>u2. Inr (f, f1, f2))))))) of
           Inl e \<Rightarrow> Inl (exc_str e)
         | Inr t \<Rightarrow> Inr t)\<rparr>"

record crit_point =
  cp_x :: real
  cp_y :: real
  cp_type :: string
  cp_second_derivative :: real

definition json_crit_point :: "crit_point \<Rightarrow> jval" where
  "json_crit_point p =
     JDict [(''x'', JNum (cp_x p)), (''y'', JNum (cp_y p)), (''type'', JStr [Lit (cp_type p)]),
            (''second_derivative'', JNum (cp_second_derivative p))]"

text \<open>One pass of the loop body for the element \<open>cx\<close>: the points appended (none on
  \<open>continue\<close>, also when the inner \<open>try\<close> catches an exception).\<close>

definition critical_step ::
  "'e sympy \<Rightarrow> 'e \<Rightarrow> 'e \<Rightarrow> (real \<times> real) option \<Rightarrow> complex \<Rightarrow> crit_point list" where
  "critical_step S f f2 domain cx =
     (if Im cx \<noteq> 0 then []
      else
        (let cx_val = Re cx in
         if (case domain of None \<Rightarrow> False | Some (lo, hi) \<Rightarrow> cx_val < lo \<or> cx_val > hi)
         then []
         else
           (case sp_subs_float S f cx of
              Inl e \<Rightarrow> []
            | Inr cy_val \<Rightarrow>
                (case sp_subs_float S f2 cx of
                   Inl e \<Rightarrow> []
                 | Inr second_deriv_val \<Rightarrow>
                     [\<lparr>cp_x = cx_val, cp_y = cy_val,
                       cp_type =
                         (if second_deriv_val > 0 then ''local minimum''
                          else if second_deriv_val < 0 then ''local maximum''
                          else ''inflection point''),
                       cp_second_derivative = second_deriv_val\<rparr>]))))"

text \<open>\<open>for cx in critical_x\<close>: the loop has no \<open>break\<close>, it ends when the iterator does.
  \<open>None\<close> is a loop that never ends.\<close>

partial_function (option) critical_loop ::
  "'e sympy \<Rightarrow> 'e \<Rightarrow> 'e \<Rightarrow> (real \<times> real) option \<Rightarrow> (nat \<Rightarrow> complex option) \<Rightarrow> nat \<Rightarrow>
   crit_point list \<Rightarrow> crit_point list option" where
  "critical_loop S f f2 domain it i points =
     (case it i of
        None \<Rightarrow> Some points
      | Some cx \<Rightarrow> critical_loop S f f2 domain it (Suc i) (points @ critical_step S f f2 domain cx))"

definition utf8_bullet :: string where
  "utf8_bullet = [CHR 0xE2, CHR 0x80, CHR 0xA2]"

definition fprime_text :: string where
  "fprime_text = ''f'' @ [CHR 0x27] @ ''(x) = ''"

definition critical_points ::
  "'e sympy \<Rightarrow> 'e FunctionAnalyzer \<Rightarrow> (real \<times> real) option \<Rightarrow> ComputationResult option" where
  "critical_points S self domain =
     (case parsed self of
        Inl err \<Rightarrow> Some (create_error_result ''critical_points'' err)
      | Inr (f, f1, f2) \<Rightarrow>
          (case (case sp_solveset_reals S f1 of Inr s \<Rightarrow> Inr s | Inl e \<Rightarrow> sp_solveset S f1) of
             Inl e \<Rightarrow> Some (create_error_result ''critical_points'' (exc_str e))
           | Inr NotIterable \<Rightarrow>
               Some \<lparr>status = ''ok'', operation = ''critical_points'',
                     payload = [(''points'', JList [])],
                     steps = [[Lit ''Given: f(x) = '', Lit (expression self)],
                              [Lit fprime_text, Lit (sp_latex S f1)],
                              [Lit ''Could not enumerate critical points from the solution set.'']]\<rparr>
           | Inr (Iterable it) \<Rightarrow>
               map_option
                 (\<lambda>points.
                    \<lparr>status = ''ok'', operation = ''critical_points'',
                     payload = [(''points'', JList (map json_crit_point points))],
                     steps =
                       [[Lit ''Given: f(x) = '', Lit (expression self)],
                        [Lit fprime_text, Lit (sp_latex S f1)],
                        [Lit (''Setting '' @ fprime_text @ ''0:'')],
                        [Lit ''Found '', IntS (int (length points)), Lit '' critical point(s)'']]
                       @ map (\<lambda>p. Lit (''  '' @ utf8_bullet @ '' x = '')
                                    # format_latex_number (cp_x p)
                                    @ [Lit '': '', Lit (cp_type p), Lit '' at y = '']
                                    @ format_latex_number (cp_y p)) points\<rparr>)
                 (critical_loop S f f2 domain it 0 [])))"

definition find_critical_points ::
  "'e sympy \<Rightarrow> string \<Rightarrow> (real \<times> real) option \<Rightarrow> ComputationResult option" where
  "find_critical_points S expr_text domain =
     (let analyzer = FunctionAnalyzer_init S expr_text in
      case parsed analyzer of
        Inl err \<Rightarrow> Some (create_error_result ''critical_points'' err)
      | Inr t \<Rightarrow> critical_points S analyzer domain)"

subsection \<open>Limits\<close>

definition limit_error :: "string \<Rightarrow> pyexc \<Rightarrow> ComputationResult" where
  "limit_error expr_text e =
     (if exc_kind_of e = SympifyError
      then create_error_result ''limit'' [Lit ''Invalid expression: '', Lit expr_text]
      else create_error_result ''limit'' (Lit ''Computation error: '' # exc_str e))"

definition compute_limit ::
  "'e sympy \<Rightarrow> string \<Rightarrow> real \<Rightarrow> string \<Rightarrow> ComputationResult" where
  "compute_limit S expr_text point direction =
     (case sp_sympify S expr_text of
        Inl e \<Rightarrow> limit_error expr_text e
      | Inr expr \<Rightarrow>
          (let dir_sym = (if direction = ''+'' then ''+''
                          else if direction = ''-'' then ''-'' else ''+-'') in
           case sp_limit S expr point dir_sym of
             Inl e \<Rightarrow> limit_error expr_text e
           | Inr lim_val \<Rightarrow>
               \<lparr>status = ''ok'', operation = ''limit'',
                payload = [(''expression'', JStr [Lit expr_text]), (''point'', JNum point),
                           (''direction'', JStr [Lit direction]),
                           (''result'', JStr [Lit (sp_str S lim_val)])],
                steps = [[Lit (''Limit expression: '' @ [CHR 0x5C] @ ''lim_{x '' @ [CHR 0x5C]
                               @ ''to ''), Num [] point, Lit ''} ('', Lit (sp_latex S expr),
                          Lit '')''],
                         [Lit ''Evaluated limit: '', Lit (sp_latex S lim_val)]]\<rparr>))"

subsection \<open>Reference instances of the library\<close>

text \<open>Polynomials in \<open>x\<close> as coefficient lists, lowest degree first, with exact
  differentiation and evaluation. Parsing and solving stay parameters. The limit of a
  polynomial at a point is its value there.\<close>

fun poly_eval :: "real list \<Rightarrow> real \<Rightarrow> real" where
  "poly_eval [] v = 0"
| "poly_eval (c # cs) v = c + v * poly_eval cs v"

fun poly_diff_from :: "nat \<Rightarrow> real list \<Rightarrow> real list" where
  "poly_diff_from n [] = []"
| "poly_diff_from n (c # cs) = (of_nat n * c) # poly_diff_from (Suc n) cs"

definition poly_diff :: "real list \<Rightarrow> real list" where
  "poly_diff p = (case p of [] \<Rightarrow> [] | c # cs \<Rightarrow> poly_diff_from 1 cs)"

definition poly_sympy ::
  "(string \<Rightarrow> pyexc + real list) \<Rightarrow> (real list \<Rightarrow> pyexc + solset) \<Rightarrow> (real list) sympy" where
  "poly_sympy parse solve =
     \<lparr>sp_sympify = parse,
      sp_lambdify = (\<lambda>p. Inr ()),
      sp_diff = (\<lambda>p. Inr (poly_diff p)),
      sp_solveset_reals = solve,
      sp_solveset = solve,
      sp_subs_float = (\<lambda>p z. if Im z = 0 then Inr (poly_eval p (Re z))
                              else Inl (PyExc TypeError [])),
      sp_limit = (\<lambda>p v d. Inr [poly_eval p v]),
      sp_latex = (\<lambda>p. []),
      sp_str = (\<lambda>p. [])\<rparr>"

text \<open>A library that answers as SymPy does for \<open>sin(x)\<close>: expressions are their texts,
  and the zeros of the derivative \<open>cos(x)\<close> are enumerated without end, as the union of
  image sets \<open>{2n\<pi> + \<pi>/2} \<union> {2n\<pi> + 3\<pi>/2}\<close> is.\<close>

definition cos_zeros :: "nat \<Rightarrow> complex option" where
  "cos_zeros i = Some (of_real (pi / 2 + of_nat i * pi))"

definition periodic_sympy :: "string sympy" where
  "periodic_sympy =
     \<lparr>sp_sympify = (\<lambda>s. Inr s),
      sp_lambdify = (\<lambda>e. Inr ()),
      sp_diff = (\<lambda>e. Inr (''Derivative('' @ e @ '', x)'')),
      sp_solveset_reals = (\<lambda>e. Inr (Iterable cos_zeros)),
      sp_solveset = (\<lambda>e. Inr (Iterable cos_zeros)),
      sp_subs_float = (\<lambda>e z. Inr 0),
      sp_limit = (\<lambda>e v d. Inr e),
      sp_latex = (\<lambda>e. e),
      sp_str = (\<lambda>e. e)\<rparr>"

subsection \<open>Reference instances of the language and of the libraries\<close>

text \<open>Float arithmetic without rounding on the finite values; \<open>x ** 2\<close> raises where the
  square is beyond the range of a double. It agrees with Python wherever the exact
  result of an operation is a double, and differs from it by the rounding elsewhere. An
  operation on \<open>inf\<close> or \<open>nan\<close> is not distinguished: it gives \<open>nan\<close>.\<close>

definition lift_fin :: "(real \<Rightarrow> real \<Rightarrow> real) \<Rightarrow> pyfloat \<Rightarrow> pyfloat \<Rightarrow> pyfloat" where
  "lift_fin f x y = (case x of Fin u \<Rightarrow> (case y of Fin v \<Rightarrow> Fin (f u v) | _ \<Rightarrow> NaN) | _ \<Rightarrow> NaN)"

definition pow_overflow :: pyexc where
  "pow_overflow =
     PyExc OverflowError
       [Lit (''(34, '' @ [CHR 0x27] @ ''Numerical result out of range'' @ [CHR 0x27] @ '')'')]"

definition exact_floats :: float_ops where
  "exact_floats =
     \<lparr>f_add = lift_fin (+),
      f_sub = lift_fin (-),
      f_mul = lift_fin (*),
      f_div = lift_fin (/),
      f_pow2 = (\<lambda>x. case x of
                  Fin v \<Rightarrow> if 2^1024 - 2^970 \<le> v * v then Inl pow_overflow
                           else Inr (Fin (v * v))
                | _ \<Rightarrow> Inr NaN),
      f_sqrt = (\<lambda>x. case x of Fin v \<Rightarrow> Fin (sqrt v) | _ \<Rightarrow> NaN),
      f_of_int = (\<lambda>n. Fin (of_int n))\<rparr>"

text \<open>A library whose numbers are the texts of the operations that produced them. The
  division by a zero float raises \<open>ZeroDivisionError\<close> with an empty text, as SymPy 1.14
  does for two \<open>Float\<close>s.\<close>

definition sympy_texts :: "string sympy_num" where
  "sympy_texts =
     \<lparr>sn_pow_half = (\<lambda>D. Inr ''sqrt(D)''),
      sn_radd = (\<lambda>x v. Inr (''(-b + '' @ v @ '')'')),
      sn_rsub = (\<lambda>x v. Inr (''(-b - '' @ v @ '')'')),
      sn_div = (\<lambda>v y. if feq y (Fin 0) then Inl (PyExc ZeroDivisionError [])
                       else Inr (v @ ''/(2*a)'')),
      sn_str = (\<lambda>v. v),
      sn_latex = (\<lambda>v. v)\<rparr>"

text \<open>The same library with the division that SymPy performs when the divisor is the
  int \<open>0\<close>: no exception, but \<open>zoo\<close> (complex infinity).\<close>

definition sympy_texts_zoo :: "string sympy_num" where
  "sympy_texts_zoo =
     sympy_texts\<lparr>sn_div := (\<lambda>v y. if feq y (Fin 0) then Inr ''zoo''
                                   else Inr (v @ ''/(2*a)''))\<rparr>"


text \<open>NumPy's answers on three matrices: the identity of size two (determinant \<open>1.0\<close>,
  inverse the identity), the zero matrix of size two (determinant \<open>0.0\<close>, \<open>inv\<close> raises),
  and \<open>2^700\<close> times the identity, whose determinant \<open>2^1400\<close> is beyond the range of a
  double: \<open>det\<close> returns \<open>inf\<close>, \<open>inv\<close> returns \<open>2^-700\<close> times the identity.\<close>

definition identity2 :: "pyfloat list list" where
  "identity2 = [[Fin 1, Fin 0], [Fin 0, Fin 1]]"

definition zero2 :: "pyfloat list list" where
  "zero2 = [[Fin 0, Fin 0], [Fin 0, Fin 0]]"

definition huge2 :: "pyfloat list list" where
  "huge2 = [[Fin (2^700), Fin 0], [Fin 0, Fin (2^700)]]"

definition numpy_answers :: numpy where
  "numpy_answers =
     \<lparr>linalg_det = (\<lambda>m. if m = identity2 then Fin 1 else if m = huge2 then PInf else Fin 0),
      linalg_inv = (\<lambda>m. if m = identity2 then Inr identity2
                         else if m = huge2
                           then Inr [[Fin (1 / 2^700), Fin 0], [Fin 0, Fin (1 / 2^700)]]
                         else Inl (PyExc LinAlgError [Lit ''Singular matrix'']))\<rparr>"

text \<open>SymPy's answers on three expression texts, expressions being their texts: \<open>((\<close>
  is no expression; \<open>Abs(x)/x\<close> at \<open>0\<close> has the right-hand limit \<open>1\<close>, the left-hand limit
  \<open>-1\<close> and no two-sided limit, for which \<open>limit\<close> raises \<open>ValueError\<close>; \<open>x**2\<close> at \<open>3\<close>
  has the limit \<open>9\<close> in every direction.\<close>

definition limit_answers :: "string sympy" where
  "limit_answers =
     \<lparr>sp_sympify = (\<lambda>s. if s = ''(('' then Inl (PyExc SympifyError []) else Inr s),
      sp_lambdify = (\<lambda>e. Inr ()),
      sp_diff = (\<lambda>e. Inr (''Derivative('' @ e @ '', x)'')),
      sp_solveset_reals = (\<lambda>e. Inr NotIterable),
      sp_solveset = (\<lambda>e. Inr NotIterable),
      sp_subs_float = (\<lambda>e z. Inr 0),
      sp_limit = (\<lambda>e v d.
         if e = ''Abs(x)/x'' \<and> v = 0 then
           (if d = ''+'' then Inr ''1''
            else if d = ''-'' then Inr ''-1''
            else Inl (PyExc ValueError
                   [Lit (''The limit does not exist since left hand limit = -1 '' @
                         ''and right hand limit = 1'')]))
         else if e = ''x**2'' \<and> v = 3 then Inr ''9''
         else Inr (''Limit('' @ e @ '')'')),
      sp_latex = (\<lambda>e. e),
      sp_str = (\<lambda>e. e)\<rparr>"

section \<open>The request layer's dictionaries (app/api/math/geometry.py)\<close>




section \<open>Notions of the specification\<close>

text \<open>A plain unsigned decimal: digits with at most one dot among them and at least
  one digit; a digit is what \<open>str.isdigit\<close> accepts.\<close>

definition all_digits :: "(nat \<Rightarrow> bool) \<Rightarrow> ustr \<Rightarrow> bool" where
  "all_digits U s = list_all (isdigit_char U) s"

definition plain_unsigned_decimal :: "(nat \<Rightarrow> bool) \<Rightarrow> ustr \<Rightarrow> bool" where
  "plain_unsigned_decimal U s =
     ((s \<noteq> [] \<and> all_digits U s) \<or>
      (\<exists>u v. s = u @ [46] @ v \<and> all_digits U u \<and> all_digits U v \<and> u @ v \<noteq> []))"

text \<open>The cells that the specification calls numeric, with the strings restricted to
  what the code accepts.\<close>

fun numeric_cell :: "(nat \<Rightarrow> bool) \<Rightarrow> pyval \<Rightarrow> bool" where
  "numeric_cell U (PyInt n) = True"
| "numeric_cell U (PyFloat v) = True"
| "numeric_cell U (PyBool b) = True"
| "numeric_cell U (PyStr s) = plain_unsigned_decimal U s"
| "numeric_cell U PyNone = False"
| "numeric_cell U PyObj = False"

text \<open>The branch of the quadratic solver as a function of the computed discriminant:
  the type and the number of roots listed.\<close>

definition discriminant_type :: "pyfloat \<Rightarrow> string" where
  "discriminant_type D =
     (if fgt D (Fin 0) then ''real_distinct''
      else if feq D (Fin 0) then ''real_repeated'' else ''complex'')"

definition discriminant_roots :: "pyfloat \<Rightarrow> 'a \<Rightarrow> 'a \<Rightarrow> 'a list" where
  "discriminant_roots D x1 x2 =
     (if \<not> fgt D (Fin 0) \<and> feq D (Fin 0) then [x1] else [x1, x2])"


text \<open>A matrix without an entry that is \<open>inf\<close> or \<open>nan\<close>.\<close>

definition finite_matrix :: "pyfloat list list \<Rightarrow> bool" where
  "finite_matrix m = list_all (list_all is_finite) m"


text \<open>The second derivative test.\<close>

definition second_derivative_test :: "real \<Rightarrow> string" where
  "second_derivative_test v =
     (if v > 0 then ''local minimum'' else if v < 0 then ''local maximum''
      else ''inflection point'')"

definition in_domain :: "(real \<times> real) option \<Rightarrow> real \<Rightarrow> bool" where
  "in_domain domain v = (case domain of None \<Rightarrow> True | Some (lo, hi) \<Rightarrow> lo \<le> v \<and> v \<le> hi)"

text \<open>A property that the float operations of the language have: where the operands are
  integers up to \<open>2^53\<close> and the exact result is one too, the operation returns it.\<close>

definition exact_on_integers :: "float_ops \<Rightarrow> bool" where
  "exact_on_integers F =
     (\<forall>m n. \<bar>m\<bar> \<le> 2^53 \<and> \<bar>n\<bar> \<le> 2^53 \<longrightarrow>
        (\<bar>m + n\<bar> \<le> 2^53 \<longrightarrow>
           f_add F (Fin (of_int m)) (Fin (of_int n)) = Fin (of_int (m + n))) \<and>
        (\<bar>m - n\<bar> \<le> 2^53 \<longrightarrow>
           f_sub F (Fin (of_int m)) (Fin (of_int n)) = Fin (of_int (m - n))) \<and>
        (\<bar>m * n\<bar> \<le> 2^53 \<longrightarrow>
           f_mul F (Fin (of_int m)) (Fin (of_int n)) = Fin (of_int (m * n))) \<and>
        (n \<noteq> 0 \<and> n dvd m \<longrightarrow>
           f_div F (Fin (of_int m)) (Fin (of_int n)) = Fin (of_int (m div n))) \<and>
        (m * m \<le> 2^53 \<longrightarrow>
           f_pow2 F (Fin (of_int m)) = Inr (Fin (of_int (m * m))) \<and>
           f_sqrt F (Fin (of_int (m * m))) = Fin (of_int \<bar>m\<bar>)))"


section \<open>Basic facts about the envelope and the error monad\<close>

lemma ebind_Inr [simp]: "ebind (Inr v) f = f v"
  by (simp add: ebind_def)

lemma ebind_Inl [simp]: "ebind (Inl e) f = Inl e"
  by (simp add: ebind_def)

lemma catch_all_Inr [simp]: "catch_all op (Inr r) = r"
  by (simp add: catch_all_def)

lemma catch_all_Inl [simp]: "catch_all op (Inl e) = create_error_result op (exc_str e)"
  by (simp add: catch_all_def)

lemma status_error_result [simp]: "status (create_error_result op msg) = ''error''"
  by (simp add: create_error_result_def)

lemma safe_float_PyFloat [simp]: "safe_float F parse (PyFloat v) = Inr v"
  by (simp add: safe_float_def py_float_def)


section \<open>Float operations that are exact on small integers\<close>






lemma exact_sqrt:
  assumes "exact_on_integers F" and "\<bar>m\<bar> \<le> 2^53" and "m * m \<le> 2^53"
  shows "f_sqrt F (Fin (of_int (m * m))) = Fin (of_int \<bar>m\<bar>)"
proof -
  have "\<bar>0::int\<bar> \<le> 2^53" by simp
  with assms show ?thesis unfolding exact_on_integers_def by blast
qed




section \<open>Quadratic equations: the three branches\<close>

lemma solve_pow_raises:
  assumes "f_pow2 F b = Inl e"
  shows "QuadraticSolver_solve F Q a b c = create_error_result ''quadratic_solve'' (exc_str e)"
  using assms by (simp add: QuadraticSolver_solve_def solve_quadratic_def)

lemma solve_x1_raises:
  assumes "f_pow2 F b = Inr b_sq"
    and "quadratic_x1 F Q a b (f_sub F b_sq (f_mul F (f_mul F (Fin 4) a) c)) = Inl e"
  shows "QuadraticSolver_solve F Q a b c = create_error_result ''quadratic_solve'' (exc_str e)"
  using assms by (simp add: QuadraticSolver_solve_def solve_quadratic_def Let_def)

lemma solve_x2_raises:
  assumes "f_pow2 F b = Inr b_sq"
    and "quadratic_x1 F Q a b (f_sub F b_sq (f_mul F (f_mul F (Fin 4) a) c)) = Inr x1"
    and "quadratic_x2 F Q a b (f_sub F b_sq (f_mul F (f_mul F (Fin 4) a) c)) = Inl e"
  shows "QuadraticSolver_solve F Q a b c = create_error_result ''quadratic_solve'' (exc_str e)"
  using assms by (simp add: QuadraticSolver_solve_def solve_quadratic_def Let_def)

lemma solve_returns:
  assumes "f_pow2 F b = Inr b_sq"
    and "quadratic_x1 F Q a b (f_sub F b_sq (f_mul F (f_mul F (Fin 4) a) c)) = Inr x1"
    and "quadratic_x2 F Q a b (f_sub F b_sq (f_mul F (f_mul F (Fin 4) a) c)) = Inr x2"
  shows "status (QuadraticSolver_solve F Q a b c) = ''ok'' \<and>
         payload (QuadraticSolver_solve F Q a b c)
           = [(''roots'', JList (map (\<lambda>x. JStr [Lit (sn_str Q x)])
                (discriminant_roots (f_sub F b_sq (f_mul F (f_mul F (Fin 4) a) c)) x1 x2))),
              (''type'', JStr [Lit (discriminant_type
                (f_sub F b_sq (f_mul F (f_mul F (Fin 4) a) c)))])]"
  using assms
  by (simp add: QuadraticSolver_solve_def solve_quadratic_def Let_def discriminant_roots_def
      discriminant_type_def)

text \<open>
  C6, at inputs where the claim fails. With \<open>a = 1\<close>, \<open>b = 2^600\<close>, \<open>c = 1\<close> the
  discriminant \<open>b\<^sup>2 - 4ac\<close> is positive, but \<open>b**2\<close> is beyond the range of a double: Python
  raises \<open>OverflowError\<close> and the result is an error envelope, without roots or type. With
  \<open>a = 1\<close>, \<open>b = 134217729\<close>, \<open>c = 4503599694479360\<close> the discriminant is \<open>1\<close>, but \<open>b**2\<close>
  is rounded to \<open>18014398777917440\<close>, which is \<open>4ac\<close>: the computed discriminant is \<open>0.0\<close> and
  the branch taken is \<open>real_repeated\<close>, with one root. The other float operations of these
  two computations are exact.
\<close>

theorem quadratic_discriminant_counterexample:
  "(1::real) \<noteq> 0 \<and> (2^600)^2 - 4 * 1 * 1 > (0::real) \<and>
   QuadraticSolver_solve exact_floats sympy_texts (Fin 1) (Fin (2^600)) (Fin 1)
     = create_error_result ''quadratic_solve'' (exc_str pow_overflow) \<and>
   134217729^2 - 4 * 1 * 4503599694479360 > (0::real) \<and>
   payload (QuadraticSolver_solve
              (exact_floats\<lparr>f_pow2 := (\<lambda>x. Inr (Fin 18014398777917440))\<rparr>) sympy_texts
              (Fin 1) (Fin 134217729) (Fin 4503599694479360))
     = [(''roots'', JList [JStr [Lit ''(-b + sqrt(D))/(2*a)'']]),
        (''type'', JStr [Lit ''real_repeated''])]"
proof -
  have p: "f_pow2 exact_floats (Fin (2^600)) = Inl pow_overflow"
    by (simp add: exact_floats_def)
  have a: "QuadraticSolver_solve exact_floats sympy_texts (Fin 1) (Fin (2^600)) (Fin 1)
           = create_error_result ''quadratic_solve'' (exc_str pow_overflow)"
    by (rule solve_pow_raises[OF p])
  have b: "payload (QuadraticSolver_solve
              (exact_floats\<lparr>f_pow2 := (\<lambda>x. Inr (Fin 18014398777917440))\<rparr>) sympy_texts
              (Fin 1) (Fin 134217729) (Fin 4503599694479360))
     = [(''roots'', JList [JStr [Lit ''(-b + sqrt(D))/(2*a)'']]),
        (''type'', JStr [Lit ''real_repeated''])]"
    by (simp add: QuadraticSolver_solve_def solve_quadratic_def quadratic_x1_def
        quadratic_x2_def Let_def exact_floats_def lift_fin_def sympy_texts_def fgt_def)
  show ?thesis using a b by simp
qed

text \<open>
  C6, amended. For all floats \<open>a\<close>, \<open>b\<close>, \<open>c\<close>: where \<open>b**2\<close> overflows or SymPy raises while
  it evaluates a root, the result is an error envelope with the text of the exception.
  Otherwise the result is \<open>ok\<close> and the branch follows the discriminant \<open>D = b**2 - 4*a*c\<close>
  as computed in floats: \<open>D > 0\<close> gives the type \<open>real_distinct\<close> with both roots listed,
  \<open>D == 0\<close> the type \<open>real_repeated\<close> with the first root only, and every other \<open>D\<close>
  (negative or \<open>nan\<close>) the type \<open>complex\<close> with both roots listed; the roots listed are
  SymPy's values of \<open>(-b + D**0.5)/(2a)\<close> and \<open>(-b - D**0.5)/(2a)\<close>. The type and the number
  of roots are a function of \<open>(a, b, c)\<close>.
\<close>

theorem quadratic_discriminant_branches:
  "(\<forall>e. f_pow2 F b = Inl e \<longrightarrow>
      QuadraticSolver_solve F Q a b c = create_error_result ''quadratic_solve'' (exc_str e)) \<and>
   (\<forall>b_sq. f_pow2 F b = Inr b_sq \<longrightarrow>
      (\<forall>e. quadratic_x1 F Q a b (f_sub F b_sq (f_mul F (f_mul F (Fin 4) a) c)) = Inl e \<longrightarrow>
         QuadraticSolver_solve F Q a b c
           = create_error_result ''quadratic_solve'' (exc_str e)) \<and>
      (\<forall>x1. quadratic_x1 F Q a b (f_sub F b_sq (f_mul F (f_mul F (Fin 4) a) c)) = Inr x1 \<longrightarrow>
         (\<forall>e. quadratic_x2 F Q a b (f_sub F b_sq (f_mul F (f_mul F (Fin 4) a) c)) = Inl e \<longrightarrow>
            QuadraticSolver_solve F Q a b c
              = create_error_result ''quadratic_solve'' (exc_str e)) \<and>
         (\<forall>x2. quadratic_x2 F Q a b (f_sub F b_sq (f_mul F (f_mul F (Fin 4) a) c)) = Inr x2 \<longrightarrow>
            status (QuadraticSolver_solve F Q a b c) = ''ok'' \<and>
            payload (QuadraticSolver_solve F Q a b c)
              = (if fgt (f_sub F b_sq (f_mul F (f_mul F (Fin 4) a) c)) (Fin 0) then
                   [(''roots'', JList [JStr [Lit (sn_str Q x1)], JStr [Lit (sn_str Q x2)]]),
                    (''type'', JStr [Lit ''real_distinct''])]
                 else if feq (f_sub F b_sq (f_mul F (f_mul F (Fin 4) a) c)) (Fin 0) then
                   [(''roots'', JList [JStr [Lit (sn_str Q x1)]]),
                    (''type'', JStr [Lit ''real_repeated''])]
                 else
                   [(''roots'', JList [JStr [Lit (sn_str Q x1)], JStr [Lit (sn_str Q x2)]]),
                    (''type'', JStr [Lit ''complex''])])))) \<and>
   (\<forall>D sq_root num. sn_pow_half Q D = Inr sq_root \<longrightarrow>
      sn_radd Q (fneg b) sq_root = Inr num \<longrightarrow>
      quadratic_x1 F Q a b D = sn_div Q num (f_mul F (Fin 2) a)) \<and>
   (\<forall>D sq_root num. sn_pow_half Q D = Inr sq_root \<longrightarrow>
      sn_rsub Q (fneg b) sq_root = Inr num \<longrightarrow>
      quadratic_x2 F Q a b D = sn_div Q num (f_mul F (Fin 2) a))"
proof (intro conjI allI impI)
  fix D sq_root num
  assume "sn_pow_half Q D = Inr sq_root" and "sn_radd Q (fneg b) sq_root = Inr num"
  then show "quadratic_x1 F Q a b D = sn_div Q num (f_mul F (Fin 2) a)"
    by (simp add: quadratic_x1_def)
next
  fix D sq_root num
  assume "sn_pow_half Q D = Inr sq_root" and "sn_rsub Q (fneg b) sq_root = Inr num"
  then show "quadratic_x2 F Q a b D = sn_div Q num (f_mul F (Fin 2) a)"
    by (simp add: quadratic_x2_def)
next
  fix e assume "f_pow2 F b = Inl e"
  then show "QuadraticSolver_solve F Q a b c
             = create_error_result ''quadratic_solve'' (exc_str e)"
    by (rule solve_pow_raises)
next
  fix b_sq e
  assume "f_pow2 F b = Inr b_sq"
    and "quadratic_x1 F Q a b (f_sub F b_sq (f_mul F (f_mul F (Fin 4) a) c)) = Inl e"
  then show "QuadraticSolver_solve F Q a b c
             = create_error_result ''quadratic_solve'' (exc_str e)"
    by (rule solve_x1_raises)
next
  fix b_sq x1 e
  assume "f_pow2 F b = Inr b_sq"
    and "quadratic_x1 F Q a b (f_sub F b_sq (f_mul F (f_mul F (Fin 4) a) c)) = Inr x1"
    and "quadratic_x2 F Q a b (f_sub F b_sq (f_mul F (f_mul F (Fin 4) a) c)) = Inl e"
  then show "QuadraticSolver_solve F Q a b c
             = create_error_result ''quadratic_solve'' (exc_str e)"
    by (rule solve_x2_raises)
next
  fix b_sq x1 x2
  assume h: "f_pow2 F b = Inr b_sq"
    "quadratic_x1 F Q a b (f_sub F b_sq (f_mul F (f_mul F (Fin 4) a) c)) = Inr x1"
    "quadratic_x2 F Q a b (f_sub F b_sq (f_mul F (f_mul F (Fin 4) a) c)) = Inr x2"
  show "status (QuadraticSolver_solve F Q a b c) = ''ok''"
    using solve_returns[OF h] by simp
  show "payload (QuadraticSolver_solve F Q a b c)
        = (if fgt (f_sub F b_sq (f_mul F (f_mul F (Fin 4) a) c)) (Fin 0) then
             [(''roots'', JList [JStr [Lit (sn_str Q x1)], JStr [Lit (sn_str Q x2)]]),
              (''type'', JStr [Lit ''real_distinct''])]
           else if feq (f_sub F b_sq (f_mul F (f_mul F (Fin 4) a) c)) (Fin 0) then
             [(''roots'', JList [JStr [Lit (sn_str Q x1)]]),
              (''type'', JStr [Lit ''real_repeated''])]
           else
             [(''roots'', JList [JStr [Lit (sn_str Q x1)], JStr [Lit (sn_str Q x2)]]),
              (''type'', JStr [Lit ''complex''])])"
    using solve_returns[OF h] by (simp add: discriminant_roots_def discriminant_type_def)
qed

theorem quadratic_discriminant_branches_witness:
  "f_pow2 exact_floats (Fin (- 3)) = Inr (Fin 9) \<and>
   f_sub exact_floats (Fin 9) (f_mul exact_floats (f_mul exact_floats (Fin 4) (Fin 1)) (Fin 2))
     = Fin 1 \<and>
   status (QuadraticSolver_solve exact_floats sympy_texts (Fin 1) (Fin (- 3)) (Fin 2)) = ''ok'' \<and>
   payload (QuadraticSolver_solve exact_floats sympy_texts (Fin 1) (Fin (- 3)) (Fin 2))
     = [(''roots'', JList [JStr [Lit ''(-b + sqrt(D))/(2*a)''],
                           JStr [Lit ''(-b - sqrt(D))/(2*a)'']]),
        (''type'', JStr [Lit ''real_distinct''])] \<and>
   f_pow2 exact_floats (Fin (2^600)) = Inl pow_overflow \<and>
   status (QuadraticSolver_solve exact_floats sympy_texts (Fin 1) (Fin (2^600)) (Fin 1))
     = ''error''"
proof -
  have p: "f_pow2 exact_floats (Fin (- 3)) = Inr (Fin 9)"
    by (simp add: exact_floats_def)
  have d: "f_sub exact_floats (Fin 9)
             (f_mul exact_floats (f_mul exact_floats (Fin 4) (Fin 1)) (Fin 2)) = Fin 1"
    by (simp add: exact_floats_def lift_fin_def)
  have x1: "quadratic_x1 exact_floats sympy_texts (Fin 1) (Fin (- 3))
              (f_sub exact_floats (Fin 9)
                (f_mul exact_floats (f_mul exact_floats (Fin 4) (Fin 1)) (Fin 2)))
            = Inr ''(-b + sqrt(D))/(2*a)''"
    by (simp add: quadratic_x1_def sympy_texts_def exact_floats_def lift_fin_def)
  have x2: "quadratic_x2 exact_floats sympy_texts (Fin 1) (Fin (- 3))
              (f_sub exact_floats (Fin 9)
                (f_mul exact_floats (f_mul exact_floats (Fin 4) (Fin 1)) (Fin 2)))
            = Inr ''(-b - sqrt(D))/(2*a)''"
    by (simp add: quadratic_x2_def sympy_texts_def exact_floats_def lift_fin_def)
  have o: "f_pow2 exact_floats (Fin (2^600)) = Inl pow_overflow"
    by (simp add: exact_floats_def)
  note t = quadratic_discriminant_branches[of exact_floats "Fin (- 3)" sympy_texts "Fin 1"
      "Fin 2"]
  note u = quadratic_discriminant_branches[of exact_floats "Fin (2^600)" sympy_texts "Fin 1"
      "Fin 1"]
  have r: "status (QuadraticSolver_solve exact_floats sympy_texts (Fin 1) (Fin (- 3)) (Fin 2))
             = ''ok'' \<and>
           payload (QuadraticSolver_solve exact_floats sympy_texts (Fin 1) (Fin (- 3)) (Fin 2))
             = [(''roots'', JList [JStr [Lit (sn_str sympy_texts ''(-b + sqrt(D))/(2*a)'')],
                                   JStr [Lit (sn_str sympy_texts ''(-b - sqrt(D))/(2*a)'')]]),
                (''type'', JStr [Lit ''real_distinct''])]"
    using t p x1 x2 d by (simp add: fgt_def)
  have e: "QuadraticSolver_solve exact_floats sympy_texts (Fin 1) (Fin (2^600)) (Fin 1)
           = create_error_result ''quadratic_solve'' (exc_str pow_overflow)"
    using u o by blast
  have s: "sn_str sympy_texts = (\<lambda>v. v)" by (simp add: sympy_texts_def)
  show ?thesis using p d r o e s by simp
qed

section \<open>Quadratic equations: a zero leading coefficient\<close>

text \<open>
  C10, at an input where the claim fails. With \<open>a = 0\<close>, \<open>b = 1\<close>, \<open>c = 1\<close> given as floats,
  the division by \<open>2a = 0.0\<close> inside SymPy raises \<open>ZeroDivisionError\<close>: the result is an
  error envelope, not an \<open>ok\<close> envelope with the roots \<open>zoo\<close>.
\<close>

theorem quadratic_zero_counterexample:
  "Fin 1 \<noteq> Fin 0 \<and>
   QuadraticSolver_solve exact_floats sympy_texts (Fin 0) (Fin 1) (Fin 1)
     = create_error_result ''quadratic_solve'' [] \<and>
   status (QuadraticSolver_solve exact_floats sympy_texts (Fin 0) (Fin 1) (Fin 1)) = ''error''"
  by (simp add: QuadraticSolver_solve_def solve_quadratic_def quadratic_x1_def Let_def
      exact_floats_def lift_fin_def sympy_texts_def)

text \<open>
  C10, amended. \<open>QuadraticSolver.solve\<close> does not validate \<open>a \<noteq> 0\<close>: for \<open>a = 0\<close> it still
  divides by \<open>2a = 0\<close> inside SymPy, and that division decides the envelope. Where it
  raises, as SymPy 1.14 does for the float arguments that the request layer passes, the
  result is an error envelope with the text of the exception. Where it returns a value
  (\<open>zoo\<close> or \<open>nan\<close>, as SymPy does for int arguments), the result is an \<open>ok\<close> envelope whose
  roots are these values, in the branch that the computed discriminant selects.
\<close>

theorem quadratic_zero_leading_coefficient:
  assumes "f_pow2 F b = Inr b_sq"
    and "sn_pow_half Q (f_sub F b_sq (f_mul F (f_mul F (Fin 4) (Fin 0)) c)) = Inr sq_root"
    and "sn_radd Q (fneg b) sq_root = Inr num1"
    and "sn_rsub Q (fneg b) sq_root = Inr num2"
  shows "(\<forall>e. sn_div Q num1 (f_mul F (Fin 2) (Fin 0)) = Inl e \<longrightarrow>
            QuadraticSolver_solve F Q (Fin 0) b c
              = create_error_result ''quadratic_solve'' (exc_str e)) \<and>
         (\<forall>x1 e. sn_div Q num1 (f_mul F (Fin 2) (Fin 0)) = Inr x1 \<longrightarrow>
            sn_div Q num2 (f_mul F (Fin 2) (Fin 0)) = Inl e \<longrightarrow>
            QuadraticSolver_solve F Q (Fin 0) b c
              = create_error_result ''quadratic_solve'' (exc_str e)) \<and>
         (\<forall>x1 x2. sn_div Q num1 (f_mul F (Fin 2) (Fin 0)) = Inr x1 \<longrightarrow>
            sn_div Q num2 (f_mul F (Fin 2) (Fin 0)) = Inr x2 \<longrightarrow>
            status (QuadraticSolver_solve F Q (Fin 0) b c) = ''ok'' \<and>
            payload (QuadraticSolver_solve F Q (Fin 0) b c)
              = [(''roots'', JList (map (\<lambda>x. JStr [Lit (sn_str Q x)])
                   (discriminant_roots (f_sub F b_sq (f_mul F (f_mul F (Fin 4) (Fin 0)) c))
                      x1 x2))),
                 (''type'', JStr [Lit (discriminant_type
                   (f_sub F b_sq (f_mul F (f_mul F (Fin 4) (Fin 0)) c)))])])"
proof (intro conjI allI impI)
  fix e assume "sn_div Q num1 (f_mul F (Fin 2) (Fin 0)) = Inl e"
  then have "quadratic_x1 F Q (Fin 0) b (f_sub F b_sq (f_mul F (f_mul F (Fin 4) (Fin 0)) c))
             = Inl e"
    using assms by (simp add: quadratic_x1_def)
  then show "QuadraticSolver_solve F Q (Fin 0) b c
             = create_error_result ''quadratic_solve'' (exc_str e)"
    by (rule solve_x1_raises[OF assms(1)])
next
  fix x1 e
  assume "sn_div Q num1 (f_mul F (Fin 2) (Fin 0)) = Inr x1"
    and "sn_div Q num2 (f_mul F (Fin 2) (Fin 0)) = Inl e"
  then have "quadratic_x1 F Q (Fin 0) b (f_sub F b_sq (f_mul F (f_mul F (Fin 4) (Fin 0)) c))
             = Inr x1"
    "quadratic_x2 F Q (Fin 0) b (f_sub F b_sq (f_mul F (f_mul F (Fin 4) (Fin 0)) c))
             = Inl e"
    using assms by (simp_all add: quadratic_x1_def quadratic_x2_def)
  then show "QuadraticSolver_solve F Q (Fin 0) b c
             = create_error_result ''quadratic_solve'' (exc_str e)"
    by (rule solve_x2_raises[OF assms(1)])
next
  fix x1 x2
  assume "sn_div Q num1 (f_mul F (Fin 2) (Fin 0)) = Inr x1"
    and "sn_div Q num2 (f_mul F (Fin 2) (Fin 0)) = Inr x2"
  then have x: "quadratic_x1 F Q (Fin 0) b (f_sub F b_sq (f_mul F (f_mul F (Fin 4) (Fin 0)) c))
             = Inr x1"
    "quadratic_x2 F Q (Fin 0) b (f_sub F b_sq (f_mul F (f_mul F (Fin 4) (Fin 0)) c))
             = Inr x2"
    using assms by (simp_all add: quadratic_x1_def quadratic_x2_def)
  show "status (QuadraticSolver_solve F Q (Fin 0) b c) = ''ok''"
    using solve_returns[OF assms(1) x] by simp
  show "payload (QuadraticSolver_solve F Q (Fin 0) b c)
        = [(''roots'', JList (map (\<lambda>x. JStr [Lit (sn_str Q x)])
             (discriminant_roots (f_sub F b_sq (f_mul F (f_mul F (Fin 4) (Fin 0)) c))
                x1 x2))),
           (''type'', JStr [Lit (discriminant_type
             (f_sub F b_sq (f_mul F (f_mul F (Fin 4) (Fin 0)) c)))])]"
    using solve_returns[OF assms(1) x] by simp
qed

theorem quadratic_zero_leading_coefficient_witness:
  "f_pow2 exact_floats (Fin 1) = Inr (Fin 1) \<and>
   sn_div sympy_texts ''(-b + sqrt(D))'' (f_mul exact_floats (Fin 2) (Fin 0))
     = Inl (PyExc ZeroDivisionError []) \<and>
   QuadraticSolver_solve exact_floats sympy_texts (Fin 0) (Fin 1) (Fin 1)
     = create_error_result ''quadratic_solve'' [] \<and>
   sn_div sympy_texts_zoo ''(-b + sqrt(D))'' (f_mul exact_floats (Fin 2) (Fin 0))
     = Inr ''zoo'' \<and>
   status (QuadraticSolver_solve exact_floats sympy_texts_zoo (Fin 0) (Fin 1) (Fin 1)) = ''ok'' \<and>
   payload (QuadraticSolver_solve exact_floats sympy_texts_zoo (Fin 0) (Fin 1) (Fin 1))
     = [(''roots'', JList [JStr [Lit ''zoo''], JStr [Lit ''zoo'']]),
        (''type'', JStr [Lit ''real_distinct''])]"
proof -
  have p: "f_pow2 exact_floats (Fin 1) = Inr (Fin 1)"
    by (simp add: exact_floats_def)
  have d: "f_sub exact_floats (Fin 1)
             (f_mul exact_floats (f_mul exact_floats (Fin 4) (Fin 0)) (Fin 1)) = Fin 1"
    by (simp add: exact_floats_def lift_fin_def)
  have z: "f_mul exact_floats (Fin 2) (Fin 0) = Fin 0"
    by (simp add: exact_floats_def lift_fin_def)
  have s1: "sn_pow_half sympy_texts (f_sub exact_floats (Fin 1)
             (f_mul exact_floats (f_mul exact_floats (Fin 4) (Fin 0)) (Fin 1))) = Inr ''sqrt(D)''"
    "sn_radd sympy_texts (fneg (Fin 1)) ''sqrt(D)'' = Inr ''(-b + sqrt(D))''"
    "sn_rsub sympy_texts (fneg (Fin 1)) ''sqrt(D)'' = Inr ''(-b - sqrt(D))''"
    by (simp_all add: sympy_texts_def)
  have s2: "sn_pow_half sympy_texts_zoo (f_sub exact_floats (Fin 1)
             (f_mul exact_floats (f_mul exact_floats (Fin 4) (Fin 0)) (Fin 1))) = Inr ''sqrt(D)''"
    "sn_radd sympy_texts_zoo (fneg (Fin 1)) ''sqrt(D)'' = Inr ''(-b + sqrt(D))''"
    "sn_rsub sympy_texts_zoo (fneg (Fin 1)) ''sqrt(D)'' = Inr ''(-b - sqrt(D))''"
    by (simp_all add: sympy_texts_zoo_def sympy_texts_def)
  have e1: "sn_div sympy_texts ''(-b + sqrt(D))'' (f_mul exact_floats (Fin 2) (Fin 0))
            = Inl (PyExc ZeroDivisionError [])"
    by (simp add: z sympy_texts_def)
  have o1: "sn_div sympy_texts_zoo ''(-b + sqrt(D))'' (f_mul exact_floats (Fin 2) (Fin 0))
            = Inr ''zoo''"
    "sn_div sympy_texts_zoo ''(-b - sqrt(D))'' (f_mul exact_floats (Fin 2) (Fin 0))
            = Inr ''zoo''"
    by (simp_all add: z sympy_texts_zoo_def sympy_texts_def)
  have str: "sn_str sympy_texts_zoo = (\<lambda>v. v)"
    by (simp add: sympy_texts_zoo_def sympy_texts_def)
  have r1: "QuadraticSolver_solve exact_floats sympy_texts (Fin 0) (Fin 1) (Fin 1)
            = create_error_result ''quadratic_solve'' (exc_str (PyExc ZeroDivisionError []))"
    using quadratic_zero_leading_coefficient[OF p s1] e1 by blast
  have r2: "status (QuadraticSolver_solve exact_floats sympy_texts_zoo (Fin 0) (Fin 1) (Fin 1))
              = ''ok'' \<and>
            payload (QuadraticSolver_solve exact_floats sympy_texts_zoo (Fin 0) (Fin 1) (Fin 1))
              = [(''roots'', JList (map (\<lambda>x. JStr [Lit (sn_str sympy_texts_zoo x)])
                   (discriminant_roots (f_sub exact_floats (Fin 1)
                      (f_mul exact_floats (f_mul exact_floats (Fin 4) (Fin 0)) (Fin 1)))
                      ''zoo'' ''zoo''))),
                 (''type'', JStr [Lit (discriminant_type (f_sub exact_floats (Fin 1)
                      (f_mul exact_floats (f_mul exact_floats (Fin 4) (Fin 0)) (Fin 1))))])]"
    using quadratic_zero_leading_coefficient[OF p s2] o1 by blast
  show ?thesis
    using p e1 o1 r1 r2
    by (simp add: d str discriminant_roots_def discriminant_type_def fgt_def)
qed

section \<open>Conic classification\<close>








section \<open>Circle/circle intersection\<close>


lemma py_max0_not_negative: "\<not> flt (py_max0 x) (Fin 0)"
  by (cases x) (simp_all add: py_max0_def fgt_def)

lemma py_sqrt_max0: "py_sqrt F (py_max0 x) = Inr (f_sqrt F (py_max0 x))"
  by (simp add: py_sqrt_def py_max0_not_negative)







lemma chord_algebra:
  fixes a hv dx dy d r1 r2 :: real
  assumes d0: "d \<noteq> 0" and dd: "d^2 = dx^2 + dy^2"
    and a: "2 * a * d = r1^2 - r2^2 + d^2" and hv: "hv^2 = r1^2 - a^2"
  shows "((a * dx + hv * dy) / d)^2 + ((a * dy - hv * dx) / d)^2 = r1^2"
    and "((a * dx + hv * dy) / d - dx)^2 + ((a * dy - hv * dx) / d - dy)^2 = r2^2"
    and "((a * dx - hv * dy) / d)^2 + ((a * dy + hv * dx) / d)^2 = r1^2"
    and "((a * dx - hv * dy) / d - dx)^2 + ((a * dy + hv * dx) / d - dy)^2 = r2^2"
proof -
  have d2: "d^2 \<noteq> 0" using d0 by simp
  have q: "(x / d)^2 + (y / d)^2 = (x^2 + y^2) / d^2" for x y :: real
    by (simp add: power_divide add_divide_distrib)
  have e1: "(a * dx + hv * dy)^2 + (a * dy - hv * dx)^2 = (a^2 + hv^2) * (dx^2 + dy^2)"
    by (simp add: power2_eq_square algebra_simps)
  have e1': "(a * dx - hv * dy)^2 + (a * dy + hv * dx)^2 = (a^2 + hv^2) * (dx^2 + dy^2)"
    by (simp add: power2_eq_square algebra_simps)
  have s: "a^2 + hv^2 = r1^2" using hv by simp
  have "((a * dx + hv * dy) / d)^2 + ((a * dy - hv * dx) / d)^2
        = ((a * dx + hv * dy)^2 + (a * dy - hv * dx)^2) / d^2"
    by (rule q)
  also have "\<dots> = r1^2" using e1 s dd d2 by simp
  finally show "((a * dx + hv * dy) / d)^2 + ((a * dy - hv * dx) / d)^2 = r1^2" .
  have "((a * dx - hv * dy) / d)^2 + ((a * dy + hv * dx) / d)^2
        = ((a * dx - hv * dy)^2 + (a * dy + hv * dx)^2) / d^2"
    by (rule q)
  also have "\<dots> = r1^2" using e1' s dd d2 by simp
  finally show "((a * dx - hv * dy) / d)^2 + ((a * dy + hv * dx) / d)^2 = r1^2" .
  have e2: "((a - d) * dx + hv * dy)^2 + ((a - d) * dy - hv * dx)^2
            = ((a - d)^2 + hv^2) * (dx^2 + dy^2)"
    by (simp add: power2_eq_square algebra_simps)
  have e2': "((a - d) * dx - hv * dy)^2 + ((a - d) * dy + hv * dx)^2
            = ((a - d)^2 + hv^2) * (dx^2 + dy^2)"
    by (simp add: power2_eq_square algebra_simps)
  have t: "(a - d)^2 + hv^2 = r2^2"
  proof -
    have "(a - d)^2 + hv^2 = a^2 - 2 * a * d + d^2 + hv^2"
      by (simp add: power2_eq_square algebra_simps)
    also have "\<dots> = r2^2" using a hv by simp
    finally show ?thesis .
  qed
  have m1: "(a * dx + hv * dy) / d - dx = ((a - d) * dx + hv * dy) / d"
    using d0 by (simp add: field_simps)
  have m2: "(a * dy - hv * dx) / d - dy = ((a - d) * dy - hv * dx) / d"
    using d0 by (simp add: field_simps)
  have m1': "(a * dx - hv * dy) / d - dx = ((a - d) * dx - hv * dy) / d"
    using d0 by (simp add: field_simps)
  have m2': "(a * dy + hv * dx) / d - dy = ((a - d) * dy + hv * dx) / d"
    using d0 by (simp add: field_simps)
  have "((a * dx + hv * dy) / d - dx)^2 + ((a * dy - hv * dx) / d - dy)^2
        = (((a - d) * dx + hv * dy)^2 + ((a - d) * dy - hv * dx)^2) / d^2"
    unfolding m1 m2 by (rule q)
  also have "\<dots> = r2^2" using e2 t dd d2 by simp
  finally show "((a * dx + hv * dy) / d - dx)^2 + ((a * dy - hv * dx) / d - dy)^2 = r2^2" .
  have "((a * dx - hv * dy) / d - dx)^2 + ((a * dy + hv * dx) / d - dy)^2
        = (((a - d) * dx - hv * dy)^2 + ((a - d) * dy + hv * dx)^2) / d^2"
    unfolding m1' m2' by (rule q)
  also have "\<dots> = r2^2" using e2' t dd d2 by simp
  finally show "((a * dx - hv * dy) / d - dx)^2 + ((a * dy + hv * dx) / d - dy)^2 = r2^2" .
qed

text \<open>The chord construction in arithmetic without rounding: where the circles meet
  (\<open>|r1 - r2| \<le> d \<le> r1 + r2\<close> for the distance \<open>d > 0\<close> of the centres) and no square
  overflows, the two points that it returns lie on both circles.\<close>

lemma chord_points_on_both_circles:
  fixes h1 k1 r1 h2 k2 r2 d :: real
  assumes d0: "0 < d" and dd: "d^2 = (h2 - h1)^2 + (k2 - k1)^2"
    and tri: "\<bar>r1 - r2\<bar> \<le> d" "d \<le> r1 + r2" "0 \<le> r1" "0 \<le> r2"
    and range: "r1 * r1 < 2^1024 - 2^970" "r2 * r2 < 2^1024 - 2^970" "d * d < 2^1024 - 2^970"
  shows "\<exists>x y u v.
           chord_points exact_floats (Fin h1) (Fin k1) (Fin r1) (Fin h2) (Fin k2) (Fin r2) (Fin d)
             = Inr ((Fin x, Fin y), (Fin u, Fin v)) \<and>
           (x - h1)^2 + (y - k1)^2 = r1^2 \<and> (x - h2)^2 + (y - k2)^2 = r2^2 \<and>
           (u - h1)^2 + (v - k1)^2 = r1^2 \<and> (u - h2)^2 + (v - k2)^2 = r2^2"
proof -
  define a where "a = (r1 * r1 - r2 * r2 + d * d) / (2 * d)"
  define hv where "hv = sqrt (r1 * r1 - a * a)"
  define dx where "dx = h2 - h1"
  define dy where "dy = k2 - k1"
  have ad: "2 * a * d = r1^2 - r2^2 + d^2"
    using d0 by (simp add: a_def power2_eq_square)
  have up: "a \<le> r1"
  proof -
    have "(d - r1)^2 \<le> r2^2"
      by (rule abs_le_square_iff[THEN iffD1]) (use tri in linarith)
    then have "r1^2 - r2^2 + d^2 \<le> 2 * d * r1"
      by (simp add: power2_eq_square algebra_simps)
    then have "2 * a * d \<le> 2 * r1 * d" using ad by (simp add: algebra_simps)
    then show ?thesis using d0 by simp
  qed
  have lo: "- r1 \<le> a"
  proof -
    have "r2^2 \<le> (d + r1)^2"
      by (rule abs_le_square_iff[THEN iffD1]) (use tri d0 in linarith)
    then have "- (2 * d * r1) \<le> r1^2 - r2^2 + d^2"
      by (simp add: power2_eq_square algebra_simps)
    then have "d * (- r1) \<le> d * a" using ad by (simp add: algebra_simps)
    then show ?thesis using mult_le_cancel_left_pos[OF d0] by blast
  qed
  have sq: "a * a \<le> r1 * r1"
    using up lo tri(3) by (metis abs_le_iff abs_le_square_iff abs_of_nonneg minus_le_iff
        power2_eq_square)
  have nn: "0 \<le> r1 * r1 - a * a" using sq by simp
  have hv2: "hv^2 = r1^2 - a^2"
    using nn by (simp add: hv_def power2_eq_square)
  have arange: "a * a < 2^1024 - 2^970" using sq range(1) by linarith
  have mx: "py_max0 (Fin (r1 * r1 - a * a)) = Fin (r1 * r1 - a * a) \<or>
            (py_max0 (Fin (r1 * r1 - a * a)) = Fin 0 \<and> r1 * r1 - a * a = 0)"
    using nn by (auto simp: py_max0_def fgt_def)
  have root: "f_sqrt exact_floats (py_max0 (Fin (r1 * r1 - a * a))) = Fin hv"
    using mx by (auto simp: exact_floats_def hv_def)
  have c: "chord_points exact_floats (Fin h1) (Fin k1) (Fin r1) (Fin h2) (Fin k2) (Fin r2) (Fin d)
           = Inr ((Fin (h1 + a * dx / d + hv * dy / d), Fin (k1 + a * dy / d - hv * dx / d)),
                  (Fin (h1 + a * dx / d - hv * dy / d), Fin (k1 + a * dy / d + hv * dx / d)))"
  proof -
    have p1: "f_pow2 exact_floats (Fin r1) = Inr (Fin (r1 * r1))"
      and p2: "f_pow2 exact_floats (Fin r2) = Inr (Fin (r2 * r2))"
      and p3: "f_pow2 exact_floats (Fin d) = Inr (Fin (d * d))"
      and p4: "f_pow2 exact_floats (Fin a) = Inr (Fin (a * a))"
      using range arange by (simp_all add: exact_floats_def)
    have ops: "f_add exact_floats (Fin x) (Fin y) = Fin (x + y)"
      "f_sub exact_floats (Fin x) (Fin y) = Fin (x - y)"
      "f_mul exact_floats (Fin x) (Fin y) = Fin (x * y)"
      "f_div exact_floats (Fin x) (Fin y) = Fin (x / y)" for x y
      by (simp_all add: exact_floats_def lift_fin_def)
    show ?thesis
      unfolding chord_points_def
      using d0 by (simp add: p1 p2 p3 ops py_truediv_def py_sqrt_max0 Let_def
          a_def[symmetric] p4 root dx_def dy_def)
  qed
  note g = chord_algebra[of d dx dy a r1 r2 hv, OF _ _ ad hv2]
  have d0': "d \<noteq> 0" using d0 by simp
  have dd': "d^2 = dx^2 + dy^2" using dd by (simp add: dx_def dy_def)
  have x1: "h1 + a * dx / d + hv * dy / d - h1 = (a * dx + hv * dy) / d"
    and y1: "k1 + a * dy / d - hv * dx / d - k1 = (a * dy - hv * dx) / d"
    and x2: "h1 + a * dx / d + hv * dy / d - h2 = (a * dx + hv * dy) / d - dx"
    and y2: "k1 + a * dy / d - hv * dx / d - k2 = (a * dy - hv * dx) / d - dy"
    and u1: "h1 + a * dx / d - hv * dy / d - h1 = (a * dx - hv * dy) / d"
    and v1: "k1 + a * dy / d + hv * dx / d - k1 = (a * dy + hv * dx) / d"
    and u2: "h1 + a * dx / d - hv * dy / d - h2 = (a * dx - hv * dy) / d - dx"
    and v2: "k1 + a * dy / d + hv * dx / d - k2 = (a * dy + hv * dx) / d - dy"
    by (simp_all add: dx_def dy_def add_divide_distrib diff_divide_distrib)
  show ?thesis
    apply (rule exI[of _ "h1 + a * dx / d + hv * dy / d"])
    apply (rule exI[of _ "k1 + a * dy / d - hv * dx / d"])
    apply (rule exI[of _ "h1 + a * dx / d - hv * dy / d"])
    apply (rule exI[of _ "k1 + a * dy / d + hv * dx / d"])
    unfolding x1 y1 x2 y2 u1 v1 u2 v2
    using c g[OF d0' dd'] by blast
qed



section \<open>The numeric/symbolic classifier\<close>

lemma scan_row_all: "scan_row U xs = list_all (cell_is_numeric U) xs"
  by (induction xs) auto

lemma scan_matrix_all: "scan_matrix U m = list_all (list_all (cell_is_numeric U)) m"
  by (induction m) (auto simp: scan_row_all)

lemma dot_no_digit: "\<not> isdigit_char U 46"
  by (simp add: isdigit_char_def)

lemma digits_no_dot:
  assumes "all_digits U s"
  shows "46 \<notin> set s"
proof
  assume "46 \<in> set s"
  with assms have "isdigit_char U 46"
    unfolding all_digits_def list_all_iff by blast
  then show False by (simp add: dot_no_digit)
qed

lemma all_digits_append [simp]: "all_digits U (u @ v) = (all_digits U u \<and> all_digits U v)"
  by (simp add: all_digits_def)

lemma isdigit_all_digits: "isdigit U s = (s \<noteq> [] \<and> all_digits U s)"
  by (simp add: isdigit_def all_digits_def)

lemma remove_dot_split:
  assumes "46 \<notin> set u"
  shows "replace_first_dot (u @ [46] @ v) = u @ v"
  using assms by (simp add: replace_first_dot_def remove1_append)

lemma isdigit_replace_first_dot:
  "isdigit U (replace_first_dot s) = plain_unsigned_decimal U s"
proof
  assume d: "isdigit U (replace_first_dot s)"
  show "plain_unsigned_decimal U s"
  proof (cases "46 \<in> set s")
    case False
    then have "replace_first_dot s = s"
      by (simp add: replace_first_dot_def remove1_idem)
    with d show ?thesis
      by (simp add: plain_unsigned_decimal_def isdigit_all_digits)
  next
    case True
    then obtain u v where s: "s = u @ 46 # v" and u: "46 \<notin> set u"
      by (auto dest: split_list_first)
    have "replace_first_dot s = u @ v"
      using remove_dot_split[OF u, of v] s by simp
    with d have "all_digits U u" "all_digits U v" "u @ v \<noteq> []"
      by (simp_all add: isdigit_all_digits)
    then have "s = u @ [46] @ v \<and> all_digits U u \<and> all_digits U v \<and> u @ v \<noteq> []"
      using s by simp
    then show ?thesis
      unfolding plain_unsigned_decimal_def by (intro disjI2 exI[of _ u] exI[of _ v])
  qed
next
  assume "plain_unsigned_decimal U s"
  then consider (plain) "s \<noteq> []" "all_digits U s"
    | (dot) u v where "s = u @ [46] @ v" "all_digits U u" "all_digits U v" "u @ v \<noteq> []"
    unfolding plain_unsigned_decimal_def by blast
  then show "isdigit U (replace_first_dot s)"
  proof cases
    case plain
    then have "replace_first_dot s = s"
      by (simp add: replace_first_dot_def remove1_idem digits_no_dot)
    with plain show ?thesis by (simp add: isdigit_all_digits)
  next
    case dot
    have "replace_first_dot s = u @ v"
      using remove_dot_split[OF digits_no_dot[OF dot(2)], of v] dot(1) by simp
    with dot show ?thesis by (simp add: isdigit_all_digits)
  qed
qed

lemma cell_is_numeric_spec: "cell_is_numeric U x = numeric_cell U x"
  by (cases x) (simp_all add: isdigit_replace_first_dot)

text \<open>
  C7, at inputs where the claim fails: the cells \<open>-5\<close> and \<open>-1.5\<close> are signed decimals,
  and the classifier rejects them, so that the matrix goes to the symbolic path. The
  characters of these strings are below code point 256, where the Unicode database
  is fixed; the parameter for the rest of it is not consulted.
\<close>

theorem classifier_signed_counterexample:
  "\<not> scan_matrix (\<lambda>c. False) [[PyStr (ascii ''-5'')]] \<and>
   \<not> scan_matrix (\<lambda>c. False) [[PyStr (ascii ''-1.5'')]] \<and>
   compute_properties (\<lambda>c. False) (\<lambda>m. Inr ([], [[Lit ''numeric'']]))
     (\<lambda>m. Inr ([], [[Lit ''symbolic'']])) [[PyStr (ascii ''-5'')]]
   = \<lparr>status = ''ok'', operation = ''matrix_properties'', payload = [],
      steps = [[Lit ''symbolic'']]\<rparr>"
  by (simp add: compute_properties_def isdigit_def isdigit_char_def replace_first_dot_def
      ascii_def)

text \<open>
  C7, amended. The classifier selects the numeric path if and only if every cell is an
  \<open>int\<close>, a \<open>float\<close> (a \<open>bool\<close> counts as an \<open>int\<close>) or a string that, after the deletion of
  its first dot, is not empty and consists only of characters that \<open>str.isdigit\<close>
  accepts: the ASCII digits and the other digits of Unicode, such as the superscript
  two. So \<open>5\<close>, \<open>1.5\<close>, \<open>5.\<close> and \<open>.5\<close> are numeric. Every other cell, a signed string such
  as \<open>-5\<close> among them, makes the input symbolic. The classification raises no error, and
  the envelope is that of the selected path.
\<close>

theorem classifier_unsigned_decimals:
  "scan_matrix U m = (\<forall>row \<in> set m. \<forall>x \<in> set row. numeric_cell U x) \<and>
   compute_properties U numeric_path symbolic_path m =
     (case (if (\<forall>row \<in> set m. \<forall>x \<in> set row. numeric_cell U x) then numeric_path m
            else symbolic_path m) of
        Inr (payload_v, steps_v) \<Rightarrow>
          \<lparr>status = ''ok'', operation = ''matrix_properties'', payload = payload_v,
           steps = steps_v\<rparr>
      | Inl e \<Rightarrow> create_error_result ''matrix_properties'' (Lit ''Matrix Error: '' # exc_str e))"
proof -
  have c: "scan_matrix U m = (\<forall>row \<in> set m. \<forall>x \<in> set row. numeric_cell U x)"
    by (simp add: scan_matrix_all list_all_iff cell_is_numeric_spec)
  have cp: "compute_properties U numeric_path symbolic_path m =
     (case (if scan_matrix U m then numeric_path m else symbolic_path m) of
        Inr (payload_v, steps_v) \<Rightarrow>
          \<lparr>status = ''ok'', operation = ''matrix_properties'', payload = payload_v,
           steps = steps_v\<rparr>
      | Inl e \<Rightarrow> create_error_result ''matrix_properties'' (Lit ''Matrix Error: '' # exc_str e))"
    unfolding compute_properties_def Let_def
    by (cases "if scan_matrix U m then numeric_path m else symbolic_path m")
       (simp_all split: prod.splits)
  show ?thesis
    unfolding cp unfolding c by (rule conjI; rule refl)
qed

theorem classifier_unsigned_decimals_witness:
  "numeric_cell (\<lambda>c. False) (PyStr (ascii ''2.5'')) \<and>
   numeric_cell (\<lambda>c. False) (PyStr (ascii ''4'')) \<and>
   numeric_cell (\<lambda>c. False) (PyStr [178]) \<and>
   \<not> numeric_cell (\<lambda>c. False) (PyStr (ascii ''x + 1'')) \<and>
   \<not> numeric_cell (\<lambda>c. False) (PyStr (ascii ''-5''))"
proof -
  let ?U = "\<lambda>c::nat. False"
  let ?m1 = "[[PyInt 1, PyStr (ascii ''2.5'')], [PyFloat (Fin 3), PyStr (ascii ''4'')],
              [PyStr [178]]]"
  let ?m2 = "[[PyInt 1, PyStr (ascii ''x + 1'')]]"
  let ?m3 = "[[PyStr (ascii ''-5'')]]"
  have a: "scan_matrix ?U ?m1"
    by (simp add: isdigit_def isdigit_char_def replace_first_dot_def ascii_def)
  have b: "\<not> scan_matrix ?U ?m2"
    by (simp add: isdigit_def isdigit_char_def replace_first_dot_def ascii_def)
  have b3: "\<not> scan_matrix ?U ?m3"
    by (simp add: isdigit_def isdigit_char_def replace_first_dot_def ascii_def)
  have A: "\<forall>row \<in> set ?m1. \<forall>x \<in> set row. numeric_cell ?U x"
    by (rule iffD1[OF classifier_unsigned_decimals[THEN conjunct1] a])
  have B: "\<not> (\<forall>row \<in> set ?m2. \<forall>x \<in> set row. numeric_cell ?U x)"
  proof
    assume h: "\<forall>row \<in> set ?m2. \<forall>x \<in> set row. numeric_cell ?U x"
    have "scan_matrix ?U ?m2"
      by (rule iffD2[OF classifier_unsigned_decimals[THEN conjunct1] h])
    with b show False by simp
  qed
  have B3: "\<not> (\<forall>row \<in> set ?m3. \<forall>x \<in> set row. numeric_cell ?U x)"
  proof
    assume h: "\<forall>row \<in> set ?m3. \<forall>x \<in> set row. numeric_cell ?U x"
    have "scan_matrix ?U ?m3"
      by (rule iffD2[OF classifier_unsigned_decimals[THEN conjunct1] h])
    with b3 show False by simp
  qed
  have c1: "numeric_cell ?U (PyStr (ascii ''2.5''))"
    and c2: "numeric_cell ?U (PyStr (ascii ''4''))"
    and c3: "numeric_cell ?U (PyStr [178])"
    using A by simp_all
  have c4: "\<not> numeric_cell ?U (PyStr (ascii ''x + 1''))"
    using B by simp
  have c5: "\<not> numeric_cell ?U (PyStr (ascii ''-5''))"
    using B3 by simp
  show ?thesis using c1 c2 c3 c4 c5 by blast
qed

section \<open>Malformed scalar parameters\<close>











section \<open>The direction of a limit\<close>

lemma limit_error_status: "status (limit_error expr_text e) = ''error''"
  by (simp add: limit_error_def create_error_result_def)

text \<open>
  C9, at an input where the claim fails. The direction \<open>up\<close> is not recognised and an
  error envelope is returned: \<open>Abs(x)/x\<close> has no two-sided limit at \<open>0\<close>, SymPy raises, and
  the exception is reported, although the same call with the direction \<open>+\<close> succeeds.
  An expression that cannot be parsed gives an error envelope with every direction.
\<close>

theorem limit_direction_counterexample:
  "''up'' \<noteq> ''+'' \<and> ''up'' \<noteq> ''-'' \<and>
   status (compute_limit limit_answers ''Abs(x)/x'' 0 ''up'') = ''error'' \<and>
   status (compute_limit limit_answers ''Abs(x)/x'' 0 ''+'') = ''ok'' \<and>
   compute_limit limit_answers ''(('' 0 ''up''
     = create_error_result ''limit'' [Lit ''Invalid expression: '', Lit ''(('']"
  by (simp add: compute_limit_def limit_answers_def limit_error_def create_error_result_def)

text \<open>
  C9, amended. A direction other than \<open>+\<close> and \<open>-\<close> is never validated: SymPy's \<open>limit\<close>
  is called with \<open>dir='+-'\<close>, the two-sided limit. The result is an error envelope exactly
  when \<open>sympify\<close> raises or that two-sided limit raises, and otherwise the \<open>ok\<close> envelope
  of the two-sided limit, whose payload echoes the direction unchanged.
\<close>

theorem limit_direction_default:
  assumes "direction \<noteq> ''+''" and "direction \<noteq> ''-''"
  shows "(\<forall>e. sp_sympify S expr_text = Inl e \<longrightarrow>
            compute_limit S expr_text point direction = limit_error expr_text e) \<and>
         (\<forall>expr e. sp_sympify S expr_text = Inr expr \<longrightarrow>
            sp_limit S expr point ''+-'' = Inl e \<longrightarrow>
            compute_limit S expr_text point direction = limit_error expr_text e) \<and>
         (\<forall>expr lim_val. sp_sympify S expr_text = Inr expr \<longrightarrow>
            sp_limit S expr point ''+-'' = Inr lim_val \<longrightarrow>
            status (compute_limit S expr_text point direction) = ''ok'' \<and>
            payload (compute_limit S expr_text point direction)
              = [(''expression'', JStr [Lit expr_text]), (''point'', JNum point),
                 (''direction'', JStr [Lit direction]),
                 (''result'', JStr [Lit (sp_str S lim_val)])]) \<and>
         (\<forall>e. status (limit_error expr_text e) = ''error'')"
  using assms by (simp add: compute_limit_def limit_error_status)

theorem limit_direction_default_witness:
  "''up'' \<noteq> ''+'' \<and> ''up'' \<noteq> ''-'' \<and>
   sp_sympify limit_answers ''x**2'' = Inr ''x**2'' \<and>
   sp_limit limit_answers ''x**2'' 3 ''+-'' = Inr ''9'' \<and>
   status (compute_limit limit_answers ''x**2'' 3 ''up'') = ''ok'' \<and>
   payload (compute_limit limit_answers ''x**2'' 3 ''up'')
     = [(''expression'', JStr [Lit ''x**2'']), (''point'', JNum 3),
        (''direction'', JStr [Lit ''up'']), (''result'', JStr [Lit ''9''])] \<and>
   sp_limit limit_answers ''Abs(x)/x'' 0 ''+'' = Inr ''1'' \<and>
   compute_limit limit_answers ''Abs(x)/x'' 0 ''up''
     = limit_error ''Abs(x)/x''
         (PyExc ValueError
            [Lit (''The limit does not exist since left hand limit = -1 '' @
                  ''and right hand limit = 1'')])"
proof -
  have u: "''up'' \<noteq> ''+''" "''up'' \<noteq> ''-''" by simp_all
  have a: "sp_sympify limit_answers ''x**2'' = Inr ''x**2''"
    by (simp add: limit_answers_def)
  have b: "sp_limit limit_answers ''x**2'' 3 ''+-'' = Inr ''9''"
    by (simp add: limit_answers_def)
  have c: "sp_sympify limit_answers ''Abs(x)/x'' = Inr ''Abs(x)/x''"
    by (simp add: limit_answers_def)
  have d: "sp_limit limit_answers ''Abs(x)/x'' 0 ''+-''
           = Inl (PyExc ValueError
                [Lit (''The limit does not exist since left hand limit = -1 '' @
                      ''and right hand limit = 1'')])"
    by (simp add: limit_answers_def)
  have s: "sp_str limit_answers ''9'' = ''9''" by (simp add: limit_answers_def)
  have p: "sp_limit limit_answers ''Abs(x)/x'' 0 ''+'' = Inr ''1''"
    by (simp add: limit_answers_def)
  note t1 = limit_direction_default[OF u, of limit_answers "''x**2''" 3]
  note t2 = limit_direction_default[OF u, of limit_answers "''Abs(x)/x''" 0]
  from t1 a b have r1:
    "status (compute_limit limit_answers ''x**2'' 3 ''up'') = ''ok'' \<and>
     payload (compute_limit limit_answers ''x**2'' 3 ''up'')
       = [(''expression'', JStr [Lit ''x**2'']), (''point'', JNum 3),
          (''direction'', JStr [Lit ''up'']),
          (''result'', JStr [Lit (sp_str limit_answers ''9'')])]"
    by blast
  from t2 c d have r2:
    "compute_limit limit_answers ''Abs(x)/x'' 0 ''up''
     = limit_error ''Abs(x)/x''
         (PyExc ValueError
            [Lit (''The limit does not exist since left hand limit = -1 '' @
                  ''and right hand limit = 1'')])"
    by blast
  show ?thesis using u a b p r1 r2 s by simp
qed

section \<open>The gate of the matrix inverse\<close>

lemma format_latex_number_float_finite:
  "is_finite x \<Longrightarrow> \<exists>t. format_latex_number_float x = Inr t"
  by (cases x) (simp_all add: format_latex_number_float_def)

lemma format_latex_number_float_raises:
  "\<not> is_finite x \<Longrightarrow> \<exists>e. format_latex_number_float x = Inl e"
  by (cases x) (simp_all add: format_latex_number_float_def)

lemma sequence_e_format:
  "list_all is_finite row \<Longrightarrow> \<exists>cells. sequence_e (map format_latex_number_float row) = Inr cells"
proof (induction row)
  case Nil
  then show ?case by simp
next
  case (Cons x xs)
  then obtain t cells where "format_latex_number_float x = Inr t"
    "sequence_e (map format_latex_number_float xs) = Inr cells"
    using format_latex_number_float_finite[of x] by auto
  then show ?case by simp
qed

lemma sequence_e_format_raises:
  "\<not> list_all is_finite row \<Longrightarrow> \<exists>e. sequence_e (map format_latex_number_float row) = Inl e"
proof (induction row)
  case Nil
  then show ?case by simp
next
  case (Cons x xs)
  show ?case
  proof (cases "is_finite x")
    case False
    then obtain e where "format_latex_number_float x = Inl e"
      using format_latex_number_float_raises by blast
    then show ?thesis by simp
  next
    case True
    then obtain t where t: "format_latex_number_float x = Inr t"
      using format_latex_number_float_finite by blast
    from True Cons obtain e where "sequence_e (map format_latex_number_float xs) = Inl e"
      by auto
    with t show ?thesis by simp
  qed
qed

lemma matrix_to_latex_finite:
  "finite_matrix m \<Longrightarrow> \<exists>t. matrix_to_latex m = Inr t"
proof -
  assume f: "finite_matrix m"
  have "\<exists>rows. sequence_e (map (\<lambda>row.
              ebind (sequence_e (map format_latex_number_float row)) (\<lambda>cells.
                Inr (str_join [Lit '' & ''] cells))) m) = Inr rows"
    using f unfolding finite_matrix_def
  proof (induction m)
    case Nil
    then show ?case by simp
  next
    case (Cons r rs)
    then obtain cells where "sequence_e (map format_latex_number_float r) = Inr cells"
      using sequence_e_format[of r] by auto
    moreover from Cons obtain rows where
      "sequence_e (map (\<lambda>row.
              ebind (sequence_e (map format_latex_number_float row)) (\<lambda>cells.
                Inr (str_join [Lit '' & ''] cells))) rs) = Inr rows"
      by auto
    ultimately show ?case by simp
  qed
  then show ?thesis unfolding matrix_to_latex_def by auto
qed

lemma matrix_to_latex_raises:
  "\<not> finite_matrix m \<Longrightarrow> \<exists>e. matrix_to_latex m = Inl e"
proof -
  assume f: "\<not> finite_matrix m"
  have "\<exists>e. sequence_e (map (\<lambda>row.
              ebind (sequence_e (map format_latex_number_float row)) (\<lambda>cells.
                Inr (str_join [Lit '' & ''] cells))) m) = Inl e"
    using f unfolding finite_matrix_def
  proof (induction m)
    case Nil
    then show ?case by simp
  next
    case (Cons r rs)
    show ?case
    proof (cases "list_all is_finite r")
      case False
      then obtain e where "sequence_e (map format_latex_number_float r) = Inl e"
        using sequence_e_format_raises by blast
      then show ?thesis by simp
    next
      case True
      then obtain cells where c: "sequence_e (map format_latex_number_float r) = Inr cells"
        using sequence_e_format by blast
      from True Cons obtain e where
        "sequence_e (map (\<lambda>row.
              ebind (sequence_e (map format_latex_number_float row)) (\<lambda>cells.
                Inr (str_join [Lit '' & ''] cells))) rs) = Inl e"
        by auto
      with c show ?thesis by simp
    qed
  qed
  then show ?thesis unfolding matrix_to_latex_def by auto
qed

lemma below_tolerance_finite: "flt (fabs d) lit_1e_10 \<Longrightarrow> is_finite d"
  by (cases d) (simp_all add: lit_1e_10_def)

lemma matrix_inverse_singular:
  assumes "validate_matrix m ''Matrix'' = None" and "length m = length (hd m)"
    and "finite_matrix m" and "flt (fabs (linalg_det np m)) lit_1e_10"
  shows "status (matrix_inverse np m) = ''ok'' \<and>
         payload (matrix_inverse np m)
           = [(''matrix'', json_matrix m), (''determinant'', JFloat (linalg_det np m)),
              (''invertible'', JBool False)]"
proof -
  obtain t where t: "format_latex_number_float (linalg_det np m) = Inr t"
    using format_latex_number_float_finite[OF below_tolerance_finite[OF assms(4)]] by blast
  obtain tm where tm: "matrix_to_latex m = Inr tm"
    using matrix_to_latex_finite[OF assms(3)] by blast
  show ?thesis
    using assms(1,2,4) t tm by (simp add: matrix_inverse_def Let_def)
qed

lemma matrix_inverse_regular:
  assumes "validate_matrix m ''Matrix'' = None" and "length m = length (hd m)"
    and "finite_matrix m" and "\<not> flt (fabs (linalg_det np m)) lit_1e_10"
    and "is_finite (linalg_det np m)" and "linalg_inv np m = Inr inv_m"
    and "finite_matrix inv_m"
  shows "status (matrix_inverse np m) = ''ok'' \<and>
         payload (matrix_inverse np m)
           = [(''matrix'', json_matrix m), (''inverse'', json_matrix inv_m),
              (''determinant'', JFloat (linalg_det np m)), (''invertible'', JBool True)]"
proof -
  obtain t where t: "format_latex_number_float (linalg_det np m) = Inr t"
    using format_latex_number_float_finite[OF assms(5)] by blast
  obtain tm where tm: "matrix_to_latex m = Inr tm"
    using matrix_to_latex_finite[OF assms(3)] by blast
  obtain ti where ti: "matrix_to_latex inv_m = Inr ti"
    using matrix_to_latex_finite[OF assms(7)] by blast
  show ?thesis
    using assms(1,2,4,6) t tm ti by (simp add: matrix_inverse_def Let_def)
qed

lemma matrix_inverse_not_finite:
  assumes "validate_matrix m ''Matrix'' = None" and "length m = length (hd m)"
    and "\<not> flt (fabs (linalg_det np m)) lit_1e_10"
    and "\<not> is_finite (linalg_det np m) \<or>
         (\<exists>inv_m. linalg_inv np m = Inr inv_m \<and> \<not> finite_matrix inv_m)"
  shows "status (matrix_inverse np m) = ''error''"
proof (cases "linalg_inv np m")
  case (Inl e)
  then show ?thesis using assms(1,2,3) by (simp add: matrix_inverse_def Let_def)
next
  case (Inr inv_m)
  show ?thesis
  proof (cases "is_finite (linalg_det np m)")
    case False
    then obtain e where "format_latex_number_float (linalg_det np m) = Inl e"
      using format_latex_number_float_raises by blast
    then show ?thesis using assms(1,2,3) Inr by (simp add: matrix_inverse_def Let_def)
  next
    case True
    then obtain t where t: "format_latex_number_float (linalg_det np m) = Inr t"
      using format_latex_number_float_finite by blast
    from True assms(4) Inr have "\<not> finite_matrix inv_m" by simp
    then obtain e where e: "matrix_to_latex inv_m = Inl e"
      using matrix_to_latex_raises by blast
    show ?thesis
      using assms(1,2,3) Inr t e
      by (cases "matrix_to_latex m") (simp_all add: matrix_inverse_def Let_def)
  qed
qed

lemma matrix_inverse_raises:
  assumes "validate_matrix m ''Matrix'' = None" and "length m = length (hd m)"
    and "\<not> flt (fabs (linalg_det np m)) lit_1e_10" and "linalg_inv np m = Inl e"
  shows "matrix_inverse np m = create_error_result ''matrix_inverse'' (exc_str e)"
  using assms by (simp add: matrix_inverse_def Let_def)

text \<open>
  C2, at an input where the claim fails. The determinant of \<open>2^700\<close> times the identity of
  size two is \<open>2^1400\<close>, beyond the range of a double: NumPy returns \<open>inf\<close>, which is above
  \<open>1e-10\<close>, and \<open>inv\<close> returns the inverse. But the step that formats the determinant raises
  on \<open>inf\<close>, and the result is an error envelope, not a payload with \<open>invertible=true\<close> and
  the inverse.
\<close>

theorem matrix_inverse_overflow_counterexample:
  "validate_matrix huge2 ''Matrix'' = None \<and> length huge2 = length (hd huge2) \<and>
   finite_matrix huge2 \<and>
   fgt (fabs (linalg_det numpy_answers huge2)) lit_1e_10 \<and>
   linalg_inv numpy_answers huge2
     = Inr [[Fin (1 / 2^700), Fin 0], [Fin 0, Fin (1 / 2^700)]] \<and>
   matrix_inverse numpy_answers huge2
     = create_error_result ''matrix_inverse''
         [Lit ''cannot convert float infinity to integer'']"
  by (simp add: matrix_inverse_def validate_matrix_def huge2_def numpy_answers_def
      identity2_def Let_def fgt_def lit_1e_10_def format_latex_number_float_def
      finite_matrix_def)

text \<open>
  C2, amended. The inverse is gated by the test \<open>abs(det) < 1e-10\<close> on NumPy's determinant.
  For every well-formed square matrix of finite entries: where the test holds, the
  result is \<open>ok\<close> with \<open>invertible=false\<close> and no inverse; where it fails, the determinant
  is finite and \<open>inv\<close> returns a matrix of finite entries, the result is \<open>ok\<close> with
  \<open>invertible=true\<close> and that inverse; where it fails and the determinant is \<open>inf\<close> or
  \<open>nan\<close>, or the inverse has such an entry, or \<open>inv\<close> raises, the result is an error
  envelope.
\<close>

theorem matrix_inverse_gate:
  assumes "validate_matrix m ''Matrix'' = None" and "length m = length (hd m)"
    and "finite_matrix m"
  shows "(flt (fabs (linalg_det np m)) lit_1e_10 \<longrightarrow>
            status (matrix_inverse np m) = ''ok'' \<and>
            payload (matrix_inverse np m)
              = [(''matrix'', json_matrix m), (''determinant'', JFloat (linalg_det np m)),
                 (''invertible'', JBool False)]) \<and>
         (\<not> flt (fabs (linalg_det np m)) lit_1e_10 \<longrightarrow>
            (\<forall>inv_m. is_finite (linalg_det np m) \<longrightarrow> linalg_inv np m = Inr inv_m \<longrightarrow>
               finite_matrix inv_m \<longrightarrow>
               status (matrix_inverse np m) = ''ok'' \<and>
               payload (matrix_inverse np m)
                 = [(''matrix'', json_matrix m), (''inverse'', json_matrix inv_m),
                    (''determinant'', JFloat (linalg_det np m)),
                    (''invertible'', JBool True)]) \<and>
            (\<not> is_finite (linalg_det np m) \<longrightarrow>
               status (matrix_inverse np m) = ''error'') \<and>
            (\<forall>inv_m. linalg_inv np m = Inr inv_m \<longrightarrow> \<not> finite_matrix inv_m \<longrightarrow>
               status (matrix_inverse np m) = ''error'') \<and>
            (\<forall>e. linalg_inv np m = Inl e \<longrightarrow>
               matrix_inverse np m = create_error_result ''matrix_inverse'' (exc_str e)))"
  using matrix_inverse_singular[OF assms] matrix_inverse_regular[OF assms]
    matrix_inverse_not_finite[OF assms(1,2)] matrix_inverse_raises[OF assms(1,2)]
  by blast

theorem matrix_inverse_gate_witness:
  "validate_matrix identity2 ''Matrix'' = None \<and> length identity2 = length (hd identity2) \<and>
   finite_matrix identity2 \<and>
   \<not> flt (fabs (linalg_det numpy_answers identity2)) lit_1e_10 \<and>
   is_finite (linalg_det numpy_answers identity2) \<and>
   linalg_inv numpy_answers identity2 = Inr identity2 \<and>
   status (matrix_inverse numpy_answers identity2) = ''ok'' \<and>
   payload (matrix_inverse numpy_answers identity2)
     = [(''matrix'', json_matrix identity2), (''inverse'', json_matrix identity2),
        (''determinant'', JFloat (Fin 1)), (''invertible'', JBool True)] \<and>
   validate_matrix zero2 ''Matrix'' = None \<and> length zero2 = length (hd zero2) \<and>
   finite_matrix zero2 \<and>
   flt (fabs (linalg_det numpy_answers zero2)) lit_1e_10 \<and>
   status (matrix_inverse numpy_answers zero2) = ''ok'' \<and>
   payload (matrix_inverse numpy_answers zero2)
     = [(''matrix'', json_matrix zero2), (''determinant'', JFloat (Fin 0)),
        (''invertible'', JBool False)]"
proof -
  have v: "validate_matrix identity2 ''Matrix'' = None"
    "length identity2 = length (hd identity2)" "finite_matrix identity2"
    by (simp_all add: validate_matrix_def identity2_def finite_matrix_def)
  have d: "linalg_det numpy_answers identity2 = Fin 1"
    by (simp add: numpy_answers_def)
  have g: "\<not> flt (fabs (linalg_det numpy_answers identity2)) lit_1e_10"
    "is_finite (linalg_det numpy_answers identity2)"
    by (simp_all add: d lit_1e_10_def)
  have i: "linalg_inv numpy_answers identity2 = Inr identity2"
    by (simp add: numpy_answers_def)
  have w: "validate_matrix zero2 ''Matrix'' = None" "length zero2 = length (hd zero2)"
    "finite_matrix zero2"
    by (simp_all add: validate_matrix_def zero2_def finite_matrix_def)
  have z: "linalg_det numpy_answers zero2 = Fin 0"
    by (simp add: numpy_answers_def zero2_def identity2_def huge2_def)
  have s: "flt (fabs (linalg_det numpy_answers zero2)) lit_1e_10"
    by (simp add: z lit_1e_10_def)
  have r1: "status (matrix_inverse numpy_answers identity2) = ''ok'' \<and>
            payload (matrix_inverse numpy_answers identity2)
              = [(''matrix'', json_matrix identity2), (''inverse'', json_matrix identity2),
                 (''determinant'', JFloat (linalg_det numpy_answers identity2)),
                 (''invertible'', JBool True)]"
    using matrix_inverse_gate[OF v, of numpy_answers] g i v(3) by blast
  have r2: "status (matrix_inverse numpy_answers zero2) = ''ok'' \<and>
            payload (matrix_inverse numpy_answers zero2)
              = [(''matrix'', json_matrix zero2),
                 (''determinant'', JFloat (linalg_det numpy_answers zero2)),
                 (''invertible'', JBool False)]"
    using matrix_inverse_gate[OF w, of numpy_answers] s by blast
  show ?thesis using v g i w s r1 r2 d z by simp
qed

section \<open>Critical points\<close>

lemma critical_loop_list:
  "i \<le> length zs \<Longrightarrow>
   critical_loop S f f2 domain (iter_of_list zs) i acc
     = Some (acc @ concat (map (critical_step S f f2 domain) (drop i zs)))"
proof (induction "length zs - i" arbitrary: i acc)
  case 0
  then have "i = length zs" by simp
  then show ?case
    by (subst critical_loop.simps) (simp add: iter_of_list_def)
next
  case (Suc n)
  then have lt: "i < length zs" by simp
  have d: "drop i zs = zs ! i # drop (Suc i) zs"
    using lt by (simp add: Cons_nth_drop_Suc)
  have n: "n = length zs - Suc i" using Suc(2) by simp
  have "critical_loop S f f2 domain (iter_of_list zs) i acc
        = critical_loop S f f2 domain (iter_of_list zs) (Suc i)
            (acc @ critical_step S f f2 domain (zs ! i))"
    by (subst critical_loop.simps) (simp add: iter_of_list_def lt)
  also have "\<dots> = Some ((acc @ critical_step S f f2 domain (zs ! i))
                        @ concat (map (critical_step S f f2 domain) (drop (Suc i) zs)))"
    using Suc(1)[OF n] lt by simp
  finally show ?case by (simp add: d)
qed

lemma critical_loop_ends:
  assumes a: "critical_loop S f f2 domain it i acc = Some y"
  shows "\<exists>j\<ge>i. it j = None"
proof (rule critical_loop.raw_induct[where P = "\<lambda>S f f2 domain it i points y. \<exists>j\<ge>i. it j = None",
      OF _ a])
  fix cl S f f2 domain it i points y
  assume IH: "\<And>S f f2 domain it i points y.
               cl S f f2 domain it i points = Some y \<Longrightarrow> \<exists>j\<ge>i. it j = None"
    and b: "(case it i of None \<Rightarrow> Some points
             | Some cx \<Rightarrow> cl S f f2 domain it (Suc i)
                          (points @ critical_step S f f2 domain cx)) = Some y"
  show "\<exists>j\<ge>i. it j = None"
  proof (cases "it i")
    case None
    then show ?thesis by blast
  next
    case (Some cx)
    with b have "cl S f f2 domain it (Suc i) (points @ critical_step S f f2 domain cx) = Some y"
      by simp
    from IH[OF this] obtain j where "Suc i \<le> j" "it j = None" by blast
    then show ?thesis by (metis Suc_leD)
  qed
qed

lemma critical_loop_diverges:
  assumes "\<forall>j. it j \<noteq> None"
  shows "critical_loop S f f2 domain it i acc = None"
proof (cases "critical_loop S f f2 domain it i acc")
  case None
  then show ?thesis .
next
  case (Some y)
  from critical_loop_ends[OF this] assms show ?thesis by blast
qed

lemma critical_steps_filter:
  assumes "\<forall>z \<in> set zs. Im z = 0 \<longrightarrow>
             sp_subs_float S f z = Inr (F (Re z)) \<and> sp_subs_float S f2 z = Inr (F2 (Re z))"
  shows "concat (map (critical_step S f f2 domain) zs)
         = map (\<lambda>z. \<lparr>cp_x = Re z, cp_y = F (Re z),
                      cp_type = second_derivative_test (F2 (Re z)),
                      cp_second_derivative = F2 (Re z)\<rparr>)
             (filter (\<lambda>z. Im z = 0 \<and> in_domain domain (Re z)) zs)"
  using assms
proof (induction zs)
  case Nil
  then show ?case by simp
next
  case (Cons z zs)
  have dom: "(case domain of None \<Rightarrow> False | Some (lo, hi) \<Rightarrow> Re z < lo \<or> Re z > hi)
             = (\<not> in_domain domain (Re z))"
    by (auto simp: in_domain_def split: option.splits)
  have step: "critical_step S f f2 domain z
              = (if Im z = 0 \<and> in_domain domain (Re z)
                 then [\<lparr>cp_x = Re z, cp_y = F (Re z),
                        cp_type = second_derivative_test (F2 (Re z)),
                        cp_second_derivative = F2 (Re z)\<rparr>]
                 else [])"
    using Cons.prems
    by (simp add: critical_step_def Let_def dom second_derivative_test_def)
  show ?case
    using Cons by (simp add: step)
qed

lemma critical_points_finite:
  assumes "parsed self = Inr (f, f1, f2)"
    and "sp_solveset_reals S f1 = Inr (FiniteSet zs)"
  shows "\<exists>r. critical_points S self domain = Some r \<and> status r = ''ok'' \<and>
           payload r = [(''points'', JList (map json_crit_point
                          (concat (map (critical_step S f f2 domain) zs))))]"
  using assms
  by (simp add: critical_points_def FiniteSet_def critical_loop_list)

lemma critical_points_x_squared:
  assumes "parse ''x**2'' = Inr [0, 0, 1]" and "solve [0, 2] = Inr (FiniteSet [0])"
  shows "\<exists>r. find_critical_points (poly_sympy parse solve) ''x**2'' (Some (- 2, 2)) = Some r \<and>
           status r = ''ok'' \<and>
           payload r = [(''points'', JList [json_crit_point
                          \<lparr>cp_x = 0, cp_y = 0, cp_type = ''local minimum'',
                           cp_second_derivative = 2\<rparr>])]"
proof -
  let ?S = "poly_sympy parse solve"
  have init: "parsed (FunctionAnalyzer_init ?S ''x**2'') = Inr ([0, 0, 1], [0, 2], [2])"
    using assms(1) by (simp add: FunctionAnalyzer_init_def poly_sympy_def poly_diff_def)
  have sol: "sp_solveset_reals ?S [0, 2] = Inr (FiniteSet [0])"
    using assms(2) by (simp add: poly_sympy_def)
  have st: "critical_step ?S [0, 0, 1] [2] (Some (- 2, 2)) 0
            = [\<lparr>cp_x = 0, cp_y = 0, cp_type = ''local minimum'', cp_second_derivative = 2\<rparr>]"
    by (simp add: critical_step_def poly_sympy_def)
  from critical_points_finite[OF init sol, of "Some (- 2, 2)"]
  show ?thesis
    by (simp add: find_critical_points_def init st)
qed

text \<open>
  C4. When the zeros of the first derivative come as a finite set, the operation
  returns an \<open>ok\<close> envelope whose points are, in the order of the set, exactly the zeros
  with imaginary part zero that lie in the domain (every real zero when no domain is
  given); a zero with non-zero imaginary part is left out. Each point carries the value
  of the function, the second derivative there, and the type by the sign of that second
  derivative: \<open>local minimum\<close> when positive, \<open>local maximum\<close> when negative,
  \<open>inflection point\<close> when zero. For \<open>x\<^sup>2\<close> on \<open>[-2, 2]\<close> (its derivative \<open>2x\<close> with the one
  zero \<open>0\<close>) the result is exactly one point, at \<open>x = 0\<close>, a \<open>local minimum\<close>.
\<close>

theorem critical_point_classification:
  "(parsed self = Inr (f, f1, f2) \<longrightarrow>
    sp_solveset_reals S f1 = Inr (FiniteSet zs) \<longrightarrow>
    (\<forall>z \<in> set zs. Im z = 0 \<longrightarrow>
       sp_subs_float S f z = Inr (F (Re z)) \<and> sp_subs_float S f2 z = Inr (F2 (Re z))) \<longrightarrow>
    (\<exists>r. critical_points S self domain = Some r \<and> status r = ''ok'' \<and>
       payload r =
         [(''points'', JList (map (\<lambda>z. json_crit_point
               \<lparr>cp_x = Re z, cp_y = F (Re z),
                cp_type = (if F2 (Re z) > 0 then ''local minimum''
                           else if F2 (Re z) < 0 then ''local maximum''
                           else ''inflection point''),
                cp_second_derivative = F2 (Re z)\<rparr>)
            (filter (\<lambda>z. Im z = 0 \<and>
                       (case domain of None \<Rightarrow> True
                        | Some (lo, hi) \<Rightarrow> lo \<le> Re z \<and> Re z \<le> hi)) zs)))])) \<and>
   (parse ''x**2'' = Inr [0, 0, 1] \<longrightarrow> solve [0, 2] = Inr (FiniteSet [0]) \<longrightarrow>
    (\<exists>r. find_critical_points (poly_sympy parse solve) ''x**2'' (Some (- 2, 2)) = Some r \<and>
       status r = ''ok'' \<and>
       payload r = [(''points'', JList [json_crit_point
                      \<lparr>cp_x = 0, cp_y = 0, cp_type = ''local minimum'',
                       cp_second_derivative = 2\<rparr>])]))"
proof (intro conjI impI)
  assume p: "parsed self = Inr (f, f1, f2)"
    and s: "sp_solveset_reals S f1 = Inr (FiniteSet zs)"
    and e: "\<forall>z \<in> set zs. Im z = 0 \<longrightarrow>
       sp_subs_float S f z = Inr (F (Re z)) \<and> sp_subs_float S f2 z = Inr (F2 (Re z))"
  from critical_points_finite[OF p s, of "domain"]
  show "\<exists>r. critical_points S self domain = Some r \<and> status r = ''ok'' \<and>
       payload r =
         [(''points'', JList (map (\<lambda>z. json_crit_point
               \<lparr>cp_x = Re z, cp_y = F (Re z),
                cp_type = (if F2 (Re z) > 0 then ''local minimum''
                           else if F2 (Re z) < 0 then ''local maximum''
                           else ''inflection point''),
                cp_second_derivative = F2 (Re z)\<rparr>)
            (filter (\<lambda>z. Im z = 0 \<and>
                       (case domain of None \<Rightarrow> True
                        | Some (lo, hi) \<Rightarrow> lo \<le> Re z \<and> Re z \<le> hi)) zs)))]"
    unfolding critical_steps_filter[OF e]
    by (simp add: second_derivative_test_def in_domain_def comp_def)
next
  assume "parse ''x**2'' = Inr [0, 0, 1]" and "solve [0, 2] = Inr (FiniteSet [0])"
  then show "\<exists>r. find_critical_points (poly_sympy parse solve) ''x**2'' (Some (- 2, 2)) = Some r \<and>
       status r = ''ok'' \<and>
       payload r = [(''points'', JList [json_crit_point
                      \<lparr>cp_x = 0, cp_y = 0, cp_type = ''local minimum'',
                       cp_second_derivative = 2\<rparr>])]"
    by (rule critical_points_x_squared)
qed

theorem critical_point_classification_witness:
  "\<exists>r. find_critical_points (poly_sympy (\<lambda>s. Inr [0, 0, 1]) (\<lambda>p. Inr (FiniteSet [0])))
          ''x**2'' (Some (- 2, 2)) = Some r \<and>
       status r = ''ok'' \<and>
       payload r = [(''points'', JList [json_crit_point
                      \<lparr>cp_x = 0, cp_y = 0, cp_type = ''local minimum'',
                       cp_second_derivative = 2\<rparr>])]"
  using critical_point_classification[THEN conjunct2,
      of "\<lambda>s. Inr [0, 0, 1]" "\<lambda>p. Inr (FiniteSet [0])"]
  by simp

section \<open>The envelopes of the entry points that return\<close>

lemma envelope_ok_error: "envelope_ok (create_error_result op msg)"
  by (simp add: envelope_ok_def is_error_envelope_def create_error_result_def)

lemma envelope_ok_status: "status r = ''ok'' \<Longrightarrow> envelope_ok r"
  by (simp add: envelope_ok_def)

lemma envelope_ok_record:
  "envelope_ok \<lparr>status = ''ok'', operation = op, payload = p, steps = st\<rparr>"
  by (simp add: envelope_ok_def)

lemma envelope_ok_catch_all:
  assumes "\<And>r. body = Inr r \<Longrightarrow> envelope_ok r"
  shows "envelope_ok (catch_all op body)"
  using assms by (cases body) (simp_all add: catch_all_def envelope_ok_error)

lemma envelope_ok_catch_bind:
  assumes "\<And>v. envelope_ok (catch_all op (f v))"
  shows "envelope_ok (catch_all op (ebind m f))"
  using assms by (cases m) (simp_all add: catch_all_def envelope_ok_error)

lemma ebind_ok:
  assumes "ebind m f = Inr res" and "\<And>v. f v = Inr res \<Longrightarrow> status res = ''ok''"
  shows "status res = ''ok''"
  using assms by (cases m) simp_all

lemma intersection_result_ok [simp]:
  "status (intersection_result op st points distance steps_v) = ''ok''"
  by (simp add: intersection_result_def)

lemma line_circle_body_ok:
  assumes "line_circle_body F a b c h k r = Inr res"
  shows "status res = ''ok''"
  using assms unfolding line_circle_body_def Let_def
  by (auto elim!: ebind_ok split: if_splits)

lemma circle_circle_body_ok:
  assumes "circle_circle_body F h1 k1 r1 h2 k2 r2 = Inr res"
  shows "status res = ''ok''"
  using assms unfolding circle_circle_body_def Let_def
  by (auto elim!: ebind_ok split: if_splits)

lemma envelope_ok_quadratic: "envelope_ok (QuadraticSolver_solve F Q a b c)"
  unfolding QuadraticSolver_solve_def
  by (rule envelope_ok_catch_all) (auto simp: ebind_def envelope_ok_record split: sum.splits)

lemma envelope_ok_matrix_inverse: "envelope_ok (matrix_inverse np m)"
  unfolding matrix_inverse_def
  by (rule envelope_ok_catch_all)
     (auto simp: Let_def ebind_def envelope_ok_error envelope_ok_record
           split: option.splits if_splits sum.splits)

lemma envelope_ok_line_circle: "envelope_ok (line_circle_intersection F parse L C)"
  unfolding line_circle_intersection_def
  by (intro envelope_ok_catch_bind envelope_ok_catch_all envelope_ok_status)
     (rule line_circle_body_ok)

lemma envelope_ok_circle_circle: "envelope_ok (circle_circle_intersection F parse C1 C2)"
  unfolding circle_circle_intersection_def
  by (intro envelope_ok_catch_bind envelope_ok_catch_all envelope_ok_status)
     (rule circle_circle_body_ok)

lemma envelope_ok_conic: "envelope_ok (ConicAnalyzer_analyze F parse S coeffs)"
  unfolding ConicAnalyzer_analyze_def
  by (intro envelope_ok_catch_bind envelope_ok_catch_all envelope_ok_status)
     (auto split: prod.splits)

lemma envelope_ok_limit: "envelope_ok (compute_limit S expr_text point direction)"
  by (auto simp: compute_limit_def limit_error_def Let_def envelope_ok_error
      envelope_ok_record split: sum.splits)

lemma envelope_ok_properties:
  "envelope_ok (compute_properties U numeric_path symbolic_path m)"
  by (auto simp: compute_properties_def Let_def ebind_def envelope_ok_error
      envelope_ok_record split: sum.splits prod.splits)

lemma envelope_ok_critical_points:
  "critical_points S self domain = Some r \<Longrightarrow> envelope_ok r"
  by (auto simp: critical_points_def envelope_ok_error envelope_ok_record
      split: sum.splits prod.splits solset.splits)

section \<open>An entry point that does not return\<close>

text \<open>
  C1 at the input where the code fails it. The entry points above return an envelope
  that is \<open>ok\<close> or a well-formed error whenever they return. But when the zeros of the
  derivative form a set whose iterator never ends, as SymPy returns for a periodic
  derivative (the critical points of \<open>sin(x)\<close>), the loop over the set has no exit
  and \<open>critical_points\<close> returns no envelope at all, with or without a domain.
\<close>

theorem critical_points_never_returns:
  assumes "parsed self = Inr (f, f1, f2)"
    and "sp_solveset_reals S f1 = Inr (Iterable it)"
    and "\<forall>j. it j \<noteq> None"
  shows "critical_points S self domain = None"
  using assms by (simp add: critical_points_def critical_loop_diverges)

theorem critical_points_never_returns_witness:
  "critical_points periodic_sympy (FunctionAnalyzer_init periodic_sympy ''sin(x)'')
     (Some (- 2, 2)) = None \<and>
   find_critical_points periodic_sympy ''sin(x)'' None = None"
proof -
  have p: "parsed (FunctionAnalyzer_init periodic_sympy ''sin(x)'')
           = Inr (''sin(x)'', ''Derivative(sin(x), x)'',
                  ''Derivative(Derivative(sin(x), x), x)'')"
    by (simp add: FunctionAnalyzer_init_def periodic_sympy_def)
  have s: "sp_solveset_reals periodic_sympy ''Derivative(sin(x), x)'' = Inr (Iterable cos_zeros)"
    by (simp add: periodic_sympy_def)
  have n: "\<forall>j. cos_zeros j \<noteq> None" by (simp add: cos_zeros_def)
  show ?thesis
    using critical_points_never_returns[OF p s n]
    by (simp add: find_critical_points_def p)
qed

end
